theory Spec2Isabelle
  imports Main "HOL-Library.Word"
begin

unbundle bit_operations_syntax

section \<open>C strings and characters\<close>

text \<open>
  The interpreter of \<^verbatim>\<open>src/cubescript.cc\<close> works on NUL-terminated character
  arrays. A string is modelled by the list of its characters before the
  terminator; reading position \<open>i\<close> of the array gives the terminator once \<open>i\<close>
  reaches the length (the code never reads past the terminator in the functions
  embedded here).
\<close>

definition NUL :: char where
  "NUL = char_of (0::nat)"

definition cstr_at :: "string \<Rightarrow> nat \<Rightarrow> char" where
  "cstr_at s i = (if i < length s then s ! i else NUL)"

text \<open>\<^verbatim>\<open>isdigit\<close> of \<^verbatim>\<open>ctype.h\<close> in the C locale.\<close>

definition isdigit :: "char \<Rightarrow> bool" where
  "isdigit c = (48 \<le> (of_char c :: nat) \<and> (of_char c :: nat) \<le> 57)"

text \<open>
  \<^verbatim>\<open>snprintf(buf, len, "%d", v)\<close> as \<^verbatim>\<open>intformat\<close> and \<^verbatim>\<open>intstr\<close> call it. A 32-bit
  value prints in at most 11 characters, below both buffer lengths (20 and 256), so
  the output is never cut.
\<close>

definition digit_char :: "nat \<Rightarrow> char" where
  "digit_char d = char_of (48 + d)"

fun dec_nat :: "nat \<Rightarrow> string" where
  "dec_nat n = (if n < 10 then [digit_char n] else dec_nat (n div 10) @ [digit_char (n mod 10)])"

declare dec_nat.simps [simp del]

definition intstr :: "32 word \<Rightarrow> string" where
  "intstr v = (if sint v < 0 then CHR ''-'' # dec_nat (nat (- sint v)) else dec_nat (nat (sint v)))"

section \<open>Identifiers and the interpreter state\<close>

text \<open>The C \<^verbatim>\<open>int\<close> of the source is a 32-bit two's complement integer.\<close>

type_synonym cint = "32 word"

datatype ident_type =
  ID_VAR | ID_FVAR | ID_SVAR | ID_COMMAND | ID_ALIAS | ID_LOCAL | ID_DO | ID_DOARGS
  | ID_IF | ID_RESULT | ID_NOT | ID_AND | ID_OR

text \<open>The identifier flags, one bit each (\<^verbatim>\<open>include/cubescript/cubescript.hh\<close>).\<close>

definition IDF_PERSIST :: cint where "IDF_PERSIST = 1"
definition IDF_OVERRIDE :: cint where "IDF_OVERRIDE = 2"
definition IDF_HEX :: cint where "IDF_HEX = 4"
definition IDF_READONLY :: cint where "IDF_READONLY = 8"
definition IDF_OVERRIDDEN :: cint where "IDF_OVERRIDDEN = 16"
definition IDF_UNKNOWN :: cint where "IDF_UNKNOWN = 32"
definition IDF_ARG :: cint where "IDF_ARG = 64"

definition MaxArguments :: nat where "MaxArguments = 25"
definition MaxResults :: nat where "MaxResults = 7"

text \<open>
  The C \<^verbatim>\<open>float\<close>: an IEEE 754 binary32 value. A finite nonzero value is
  \<open>FNum neg m e\<close>, of magnitude \<open>m * 2 ^ e\<close> with \<open>m\<close> odd; the two zeros, the two
  infinities and the NaNs are values of their own.
\<close>

datatype cfloat = FNaN | FInf bool | FZero bool | FNum bool nat int

text \<open>
  A \<^verbatim>\<open>TaggedValue\<close>: the type tag with the union's live member. A code value points
  into an instruction array, modelled by the array and the position; a macro value points
  at string bytes inlined in the instructions, modelled by the string.
\<close>

datatype tagged_value =
  VNull | VInt cint | VFloat cfloat | VStr string | VCode "32 word list" nat
  | VMacro string | VIdent nat | VCstr string

text \<open>
  The \<^verbatim>\<open>Ident\<close> structure. The \<^verbatim>\<open>storage\<close> pointers of a variable point at
  host memory holding its current value; the record holds that value. An alias has its
  value, its cached bytecode (\<^verbatim>\<open>code\<close>, null when absent) and the chain of saved
  bindings (\<^verbatim>\<open>stack\<close>).
\<close>

record ident =
  id_type :: ident_type
  id_flags :: cint
  id_name :: string
  id_index :: nat
  minval :: cint
  maxval :: cint
  minvalf :: cfloat
  maxvalf :: cfloat
  storage_ip :: cint
  storage_fp :: cfloat
  storage_sp :: string
  overrideval_i :: cint
  overrideval_f :: cfloat
  overrideval_s :: string
  id_val :: tagged_value
  id_code :: "32 word list option"
  id_stack :: "tagged_value list"
  id_args :: string
  id_numargs :: nat

record ident_link =
  link_id :: "nat option"
  usedargs :: cint

text \<open>
  The \<^verbatim>\<open>CsState\<close>. \<open>identmap\<close> is the vector of identifiers, a pointer to an
  identifier is its position there; \<open>idents\<close> is the table from names. \<open>cs_stack\<close> holds
  the links of the alias calls in progress, innermost first, above the \<open>noalias\<close> link.
  \<open>err_out\<close> is what was written to \<^verbatim>\<open>ostd::err\<close>, one entry per line; \<open>var_changed\<close> lists
  the variables whose change callback was called (the callbacks are host code).
\<close>

record cs_state =
  identmap :: "ident list"
  idents :: "string \<rightharpoonup> nat"
  dummy :: nat
  noalias :: ident_link
  cs_stack :: "ident_link list"
  identflags :: cint
  nodebug :: cint
  cs_numargs :: cint
  dbgalias :: cint
  err_out :: "string list"
  var_changed :: "nat list"

subsection \<open>Diagnostics\<close>

text \<open>\<^verbatim>\<open>cs_debug_alias\<close>: the alias calls in progress, innermost first, cut at depth \<^verbatim>\<open>dbgalias\<close>.\<close>

fun debug_alias_lines :: "cint \<Rightarrow> nat \<Rightarrow> nat \<Rightarrow> string list \<Rightarrow> string list" where
  "debug_alias_lines dbg tot depth [] = []"
| "debug_alias_lines dbg tot depth (name # rest) =
     (let depth' = depth + 1;
          n = intstr (of_nat (tot - depth' + 1)) in
      (if int depth' < sint dbg then [''  '' @ n @ '') '' @ name]
       else if rest = [] then
         [(if int depth' = sint dbg then ''  '' else ''  ..'') @ n @ '') '' @ name]
       else [])
      @ debug_alias_lines dbg tot depth' rest)"

definition link_name :: "cs_state \<Rightarrow> ident_link \<Rightarrow> string" where
  "link_name cs l = (case link_id l of None \<Rightarrow> [] | Some i \<Rightarrow> id_name (identmap cs ! i))"

definition cs_debug_alias :: "cs_state \<Rightarrow> string list" where
  "cs_debug_alias cs =
     (if dbgalias cs = 0 then []
      else debug_alias_lines (dbgalias cs) (length (cs_stack cs)) 0
             (map (link_name cs) (cs_stack cs)))"

text \<open>\<^verbatim>\<open>cs_debug_code\<close>, called with the message already formatted.\<close>

definition cs_debug_code :: "cs_state \<Rightarrow> string \<Rightarrow> cs_state" where
  "cs_debug_code cs msg =
     (if nodebug cs \<noteq> 0 then cs
      else cs\<lparr>err_out := err_out cs @ [msg] @ cs_debug_alias cs\<rparr>)"

subsection \<open>Creating identifiers\<close>

definition cs_check_num :: "string \<Rightarrow> bool" where
  "cs_check_num s =
     (if isdigit (cstr_at s 0) then True
      else if cstr_at s 0 = CHR ''+'' \<or> cstr_at s 0 = CHR ''-'' then
        isdigit (cstr_at s 1) \<or> (cstr_at s 1 = CHR ''.'' \<and> isdigit (cstr_at s 2))
      else if cstr_at s 0 = CHR ''.'' then isdigit (cstr_at s 1)
      else False)"

text \<open>
  The constructor \<^verbatim>\<open>Ident(int t, ConstCharRange n, int flagsv)\<close> of an alias with no
  value. The members it leaves alone are given fixed values here.
\<close>

definition blank_ident :: "ident_type \<Rightarrow> string \<Rightarrow> cint \<Rightarrow> ident" where
  "blank_ident t n flagsv =
     \<lparr>id_type = t, id_flags = flagsv, id_name = n, id_index = 0,
      minval = 0, maxval = 0, minvalf = FZero False, maxvalf = FZero False,
      storage_ip = 0, storage_fp = FZero False, storage_sp = [],
      overrideval_i = 0, overrideval_f = FZero False, overrideval_s = [],
      id_val = VNull, id_code = None, id_stack = [], id_args = [], id_numargs = 0\<rparr>"

definition Ident_alias :: "string \<Rightarrow> cint \<Rightarrow> ident" where
  "Ident_alias n flagsv = blank_ident ID_ALIAS n flagsv"

text \<open>
  \<^verbatim>\<open>add_ident\<close> (as \<^verbatim>\<open>internal_state::add_ident\<close> of \<^verbatim>\<open>src/cs_state.cc\<close> has it): the
  identifier gets the next index, is entered in the table under its name and appended to
  the vector. The result is the pointer to it.
\<close>

definition add_ident :: "cs_state \<Rightarrow> ident \<Rightarrow> nat \<times> cs_state" where
  "add_ident cs idn =
     (let i = length (identmap cs) in
      (i, cs\<lparr>idents := (idents cs)(id_name idn \<mapsto> i),
              identmap := identmap cs @ [idn\<lparr>id_index := i\<rparr>]\<rparr>))"

definition new_ident :: "cs_state \<Rightarrow> string \<Rightarrow> cint \<Rightarrow> nat \<times> cs_state" where
  "new_ident cs name flags =
     (case idents cs name of
        Some i \<Rightarrow> (i, cs)
      | None \<Rightarrow>
          if cs_check_num name then
            (dummy cs, cs_debug_code cs (''number '' @ name @ '' is not a valid identifier name''))
          else add_ident cs (Ident_alias name flags))"

text \<open>
  The constructor of an integer variable,
  \<^verbatim>\<open>Ident(int t, ConstCharRange n, int m, int x, int *s, VarCb f, int flagsv)\<close>;
  \<open>s\<close> is the value held at the storage pointer.
\<close>

definition Ident_var :: "string \<Rightarrow> cint \<Rightarrow> cint \<Rightarrow> cint \<Rightarrow> cint \<Rightarrow> ident" where
  "Ident_var n m x s flagsv =
     (blank_ident ID_VAR n (flagsv OR (if x <s m then IDF_READONLY else 0)))
       \<lparr>minval := m, maxval := x, storage_ip := s\<rparr>"

text \<open>
  The constructor \<^verbatim>\<open>CsState::CsState()\<close>: the argument aliases \<^verbatim>\<open>arg1\<close> to
  \<^verbatim>\<open>arg25\<close>, the dummy identifier and the two builtin variables. The members that the
  class declaration initialises (it is not among the sources) start at zero here.
\<close>

definition noalias_init :: ident_link where
  "noalias_init = \<lparr>link_id = None, usedargs = push_bit MaxArguments 1 - 1\<rparr>"

definition CsState_blank :: cs_state where
  "CsState_blank =
     \<lparr>identmap = [], idents = Map.empty, dummy = 0, noalias = noalias_init, cs_stack = [],
      identflags = 0, nodebug = 0, cs_numargs = 0, dbgalias = 0, err_out = [],
      var_changed = []\<rparr>"

definition new_arg_idents :: "cs_state \<Rightarrow> cs_state" where
  "new_arg_idents cs =
     fold (\<lambda>i c. snd (new_ident c (''arg'' @ dec_nat (i + 1)) IDF_ARG)) [0 ..< MaxArguments] cs"

definition CsState_init :: cs_state where
  "CsState_init =
     (let cs1 = new_arg_idents CsState_blank;
          (d, cs2) = new_ident cs1 ''//dummy'' IDF_UNKNOWN;
          cs3 = cs2\<lparr>dummy := d\<rparr>;
          cs4 = snd (add_ident cs3 (Ident_var ''numargs'' (of_nat MaxArguments) 0 (cs_numargs cs3) 0));
          cs5 = snd (add_ident cs4 (Ident_var ''dbgalias'' 0 1000 (dbgalias cs4) 0))
      in cs5)"

subsection \<open>Setting integer variables\<close>

definition upd_ident :: "cs_state \<Rightarrow> nat \<Rightarrow> (ident \<Rightarrow> ident) \<Rightarrow> cs_state" where
  "upd_ident cs i f = cs\<lparr>identmap := (identmap cs)[i := f (identmap cs ! i)]\<rparr>"

text \<open>\<^verbatim>\<open>Ident::changed\<close> calls the variable's callback, which is host code.\<close>

definition changed :: "cs_state \<Rightarrow> nat \<Rightarrow> cs_state" where
  "changed cs i = cs\<lparr>var_changed := var_changed cs @ [i]\<rparr>"

definition has_flag :: "cint \<Rightarrow> cint \<Rightarrow> bool" where
  "has_flag flags f = (flags AND f \<noteq> 0)"

text \<open>
  \<^verbatim>\<open>cs_override_var\<close>; \<open>sf\<close>, \<open>rf\<close> and \<open>cf\<close> are the three closures, acting on the
  identifier.
\<close>

definition cs_override_var ::
  "cs_state \<Rightarrow> nat \<Rightarrow> (ident \<Rightarrow> ident) \<Rightarrow> (ident \<Rightarrow> ident) \<Rightarrow> (ident \<Rightarrow> ident)
     \<Rightarrow> bool \<times> cs_state" where
  "cs_override_var cs i sf rf cf =
     (let idn = identmap cs ! i in
      if has_flag (identflags cs) IDF_OVERRIDDEN \<or> has_flag (id_flags idn) IDF_OVERRIDE then
        if has_flag (id_flags idn) IDF_PERSIST then
          (False, cs_debug_code cs
             (''cannot override persistent variable '' @ [CHR 0x27] @ id_name idn @ [CHR 0x27]))
        else if \<not> has_flag (id_flags idn) IDF_OVERRIDDEN then
          (True, upd_ident cs i (\<lambda>d. (sf d)\<lparr>id_flags := id_flags (sf d) OR IDF_OVERRIDDEN\<rparr>))
        else (True, upd_ident cs i cf)
      else if has_flag (id_flags idn) IDF_OVERRIDDEN then
        (True, upd_ident cs i
           (\<lambda>d. cf ((rf d)\<lparr>id_flags := id_flags (rf d) AND NOT IDF_OVERRIDDEN\<rparr>)))
      else (True, upd_ident cs i cf))"

text \<open>
  \<^verbatim>\<open>ostd::clamp(v, lo, hi)\<close> of the OctaSTD library (not among the sources), taken as
  \<^verbatim>\<open>max(lo, min(v, hi))\<close> on signed integers.
\<close>

definition smin :: "cint \<Rightarrow> cint \<Rightarrow> cint" where
  "smin a b = (if b <s a then b else a)"

definition smax :: "cint \<Rightarrow> cint \<Rightarrow> cint" where
  "smax a b = (if a <s b then b else a)"

definition ostd_clamp :: "cint \<Rightarrow> cint \<Rightarrow> cint \<Rightarrow> cint" where
  "ostd_clamp v lo hi = smax lo (smin v hi)"

definition save_override_i :: "ident \<Rightarrow> ident" where
  "save_override_i d = d\<lparr>overrideval_i := storage_ip d\<rparr>"

definition set_var_int :: "cs_state \<Rightarrow> string \<Rightarrow> cint \<Rightarrow> bool \<Rightarrow> bool \<Rightarrow> cs_state" where
  "set_var_int cs name v dofunc doclamp =
     (case idents cs name of
        None \<Rightarrow> cs
      | Some i \<Rightarrow>
          if id_type (identmap cs ! i) \<noteq> ID_VAR then cs
          else
            (let (success, cs1) = cs_override_var cs i save_override_i id id in
             if \<not> success then cs1
             else
               (let cs2 = upd_ident cs1 i
                     (\<lambda>d. d\<lparr>storage_ip :=
                        (if doclamp then ostd_clamp v (minval d) (maxval d) else v)\<rparr>)
                in if dofunc then changed cs2 i else cs2)))"

text \<open>\<^verbatim>\<open>printf\<close>'s \<^verbatim>\<open>%X\<close>: the unsigned value in upper-case hexadecimal.\<close>

definition hex_char :: "nat \<Rightarrow> char" where
  "hex_char d = (if d < 10 then char_of (48 + d) else char_of (55 + d))"

fun hex_nat :: "nat \<Rightarrow> string" where
  "hex_nat n = (if n < 16 then [hex_char n] else hex_nat (n div 16) @ [hex_char (n mod 16)])"

declare hex_nat.simps [simp del]

definition hexstr :: "cint \<Rightarrow> string" where
  "hexstr v = hex_nat (unat v)"

definition range_msg :: "ident \<Rightarrow> string" where
  "range_msg idn =
     ''valid range for '' @ [CHR 0x27] @ id_name idn @ [CHR 0x27] @ '' is '' @
     (if has_flag (id_flags idn) IDF_HEX then
        (if minval idn \<le>s 255 then intstr (minval idn) @ ''..0x'' @ hexstr (maxval idn)
         else ''0x'' @ hexstr (minval idn) @ ''..0x'' @ hexstr (maxval idn))
      else intstr (minval idn) @ ''..'' @ intstr (maxval idn))"

definition cs_clamp_var :: "cs_state \<Rightarrow> nat \<Rightarrow> cint \<Rightarrow> cint \<times> cs_state" where
  "cs_clamp_var cs i v =
     (let idn = identmap cs ! i in
      if v <s minval idn then (minval idn, cs_debug_code cs (range_msg idn))
      else if maxval idn <s v then (maxval idn, cs_debug_code cs (range_msg idn))
      else (v, cs))"

definition set_var_int_checked :: "cs_state \<Rightarrow> nat \<Rightarrow> cint \<Rightarrow> cs_state" where
  "set_var_int_checked cs i v =
     (let idn = identmap cs ! i in
      if has_flag (id_flags idn) IDF_READONLY then
        cs_debug_code cs (''variable '' @ [CHR 0x27] @ id_name idn @ [CHR 0x27] @ '' is read only'')
      else
        (let (success, cs1) = cs_override_var cs i save_override_i id id in
         if \<not> success then cs1
         else
           (let d = identmap cs1 ! i;
                (v', cs2) = (if v <s minval d \<or> maxval d <s v then cs_clamp_var cs1 i v
                             else (v, cs1));
                cs3 = upd_ident cs2 i (\<lambda>d. d\<lparr>storage_ip := v'\<rparr>)
            in changed cs3 i)))"

section \<open>Bytecode blocks and their reference count\<close>

text \<open>
  An instruction is a 32-bit word: the opcode in the low 6 bits, the return type in the
  next two, the payload above. The first word of a block is \<^verbatim>\<open>CODE_START\<close> with the
  reference count above bit 8. The opcodes are the enumeration at the head of
  \<^verbatim>\<open>src/cubescript.cc\<close>, numbered from 0.
\<close>

definition CODE_START :: "32 word" where "CODE_START = 0"
definition CODE_OFFSET :: "32 word" where "CODE_OFFSET = 1"
definition CODE_NULL :: "32 word" where "CODE_NULL = 2"
definition CODE_TRUE :: "32 word" where "CODE_TRUE = 3"
definition CODE_FALSE :: "32 word" where "CODE_FALSE = 4"
definition CODE_NOT :: "32 word" where "CODE_NOT = 5"
definition CODE_POP :: "32 word" where "CODE_POP = 6"
definition CODE_ENTER :: "32 word" where "CODE_ENTER = 7"
definition CODE_ENTER_RESULT :: "32 word" where "CODE_ENTER_RESULT = 8"
definition CODE_EXIT :: "32 word" where "CODE_EXIT = 9"
definition CODE_RESULT_ARG :: "32 word" where "CODE_RESULT_ARG = 10"
definition CODE_VAL :: "32 word" where "CODE_VAL = 11"
definition CODE_VALI :: "32 word" where "CODE_VALI = 12"
definition CODE_DUP :: "32 word" where "CODE_DUP = 13"
definition CODE_MACRO :: "32 word" where "CODE_MACRO = 14"
definition CODE_BOOL :: "32 word" where "CODE_BOOL = 15"
definition CODE_BLOCK :: "32 word" where "CODE_BLOCK = 16"
definition CODE_EMPTY :: "32 word" where "CODE_EMPTY = 17"
definition CODE_COMPILE :: "32 word" where "CODE_COMPILE = 18"
definition CODE_COND :: "32 word" where "CODE_COND = 19"
definition CODE_FORCE :: "32 word" where "CODE_FORCE = 20"
definition CODE_RESULT :: "32 word" where "CODE_RESULT = 21"
definition CODE_IDENT :: "32 word" where "CODE_IDENT = 22"
definition CODE_IDENTU :: "32 word" where "CODE_IDENTU = 23"
definition CODE_IDENTARG :: "32 word" where "CODE_IDENTARG = 24"
definition CODE_COM :: "32 word" where "CODE_COM = 25"
definition CODE_COMD :: "32 word" where "CODE_COMD = 26"
definition CODE_COMC :: "32 word" where "CODE_COMC = 27"
definition CODE_COMV :: "32 word" where "CODE_COMV = 28"
definition CODE_CONC :: "32 word" where "CODE_CONC = 29"
definition CODE_CONCW :: "32 word" where "CODE_CONCW = 30"
definition CODE_CONCM :: "32 word" where "CODE_CONCM = 31"
definition CODE_DOWN :: "32 word" where "CODE_DOWN = 32"
definition CODE_SVAR :: "32 word" where "CODE_SVAR = 33"
definition CODE_SVARM :: "32 word" where "CODE_SVARM = 34"
definition CODE_SVAR1 :: "32 word" where "CODE_SVAR1 = 35"
definition CODE_IVAR :: "32 word" where "CODE_IVAR = 36"
definition CODE_IVAR1 :: "32 word" where "CODE_IVAR1 = 37"
definition CODE_IVAR2 :: "32 word" where "CODE_IVAR2 = 38"
definition CODE_IVAR3 :: "32 word" where "CODE_IVAR3 = 39"
definition CODE_FVAR :: "32 word" where "CODE_FVAR = 40"
definition CODE_FVAR1 :: "32 word" where "CODE_FVAR1 = 41"
definition CODE_LOOKUP :: "32 word" where "CODE_LOOKUP = 42"
definition CODE_LOOKUPU :: "32 word" where "CODE_LOOKUPU = 43"
definition CODE_LOOKUPARG :: "32 word" where "CODE_LOOKUPARG = 44"
definition CODE_LOOKUPM :: "32 word" where "CODE_LOOKUPM = 45"
definition CODE_LOOKUPMU :: "32 word" where "CODE_LOOKUPMU = 46"
definition CODE_LOOKUPMARG :: "32 word" where "CODE_LOOKUPMARG = 47"
definition CODE_ALIAS :: "32 word" where "CODE_ALIAS = 48"
definition CODE_ALIASU :: "32 word" where "CODE_ALIASU = 49"
definition CODE_ALIASARG :: "32 word" where "CODE_ALIASARG = 50"
definition CODE_CALL :: "32 word" where "CODE_CALL = 51"
definition CODE_CALLU :: "32 word" where "CODE_CALLU = 52"
definition CODE_CALLARG :: "32 word" where "CODE_CALLARG = 53"
definition CODE_PRINT :: "32 word" where "CODE_PRINT = 54"
definition CODE_LOCAL :: "32 word" where "CODE_LOCAL = 55"
definition CODE_DO :: "32 word" where "CODE_DO = 56"
definition CODE_DOARGS :: "32 word" where "CODE_DOARGS = 57"
definition CODE_JUMP :: "32 word" where "CODE_JUMP = 58"
definition CODE_JUMP_TRUE :: "32 word" where "CODE_JUMP_TRUE = 59"
definition CODE_JUMP_FALSE :: "32 word" where "CODE_JUMP_FALSE = 60"
definition CODE_JUMP_RESULT_TRUE :: "32 word" where "CODE_JUMP_RESULT_TRUE = 61"
definition CODE_JUMP_RESULT_FALSE :: "32 word" where "CODE_JUMP_RESULT_FALSE = 62"

definition CODE_OP_MASK :: "32 word" where "CODE_OP_MASK = 0x3F"
definition CODE_RET :: nat where "CODE_RET = 6"
definition CODE_RET_MASK :: "32 word" where "CODE_RET_MASK = 0xC0"

text \<open>
  The memory that holds a block is the list of its words; a code pointer is a position in
  it, or null. An access outside the list is outside what C defines, and makes the result
  \<open>None\<close>.
\<close>

text \<open>\<^verbatim>\<open>bcode_ref\<close> of \<^verbatim>\<open>src/cubescript.cc\<close>.\<close>

definition bcode_ref :: "32 word list \<Rightarrow> nat option \<Rightarrow> 32 word list option" where
  "bcode_ref mem code =
     (case code of
        None \<Rightarrow> Some mem
      | Some p \<Rightarrow>
          if length mem \<le> p then None
          else if mem ! p AND CODE_OP_MASK = CODE_START then Some (mem[p := mem ! p + 0x100])
          else if p = 0 then None
          else if mem ! (p - 1) AND CODE_OP_MASK = CODE_START then
            Some (mem[p - 1 := mem ! (p - 1) + 0x100])
          else if mem ! (p - 1) AND CODE_OP_MASK = CODE_OFFSET then
            (let d = unat (drop_bit 8 (mem ! (p - 1))) in
             if p < d then None else Some (mem[p - d := mem ! (p - d) + 0x100]))
          else Some mem)"

text \<open>
  \<^verbatim>\<open>bcode_unref\<close> of \<^verbatim>\<open>src/cubescript.cc\<close>. The result is the memory after the
  decrement and the pointer handed to \<^verbatim>\<open>delete[]\<close>, if any.
\<close>

definition decr_and_free :: "32 word list \<Rightarrow> nat \<Rightarrow> 32 word list \<times> nat option" where
  "decr_and_free mem q =
     (let mem' = mem[q := mem ! q - 0x100] in
      (mem', if sint (mem' ! q) < 0x100 then Some q else None))"

definition bcode_unref :: "32 word list \<Rightarrow> nat option \<Rightarrow> (32 word list \<times> nat option) option" where
  "bcode_unref mem code =
     (case code of
        None \<Rightarrow> Some (mem, None)
      | Some p \<Rightarrow>
          if length mem \<le> p then None
          else if mem ! p AND CODE_OP_MASK = CODE_START then Some (decr_and_free mem p)
          else if p = 0 then None
          else if mem ! (p - 1) AND CODE_OP_MASK = CODE_START then Some (decr_and_free mem (p - 1))
          else if mem ! (p - 1) AND CODE_OP_MASK = CODE_OFFSET then
            (let d = unat (drop_bit 8 (mem ! (p - 1))) in
             if p < d then None else Some (decr_and_free mem (p - d)))
          else Some (mem, None))"

text \<open>
  The same operations as \<^verbatim>\<open>src/cs_bcode.cc\<close> has them: \<^verbatim>\<open>bcode_incr\<close>,
  \<^verbatim>\<open>bcode_decr\<close> (with \<^verbatim>\<open>bcode_free\<close>), \<^verbatim>\<open>bcode_addref\<close> and \<^verbatim>\<open>bcode_unref\<close>; the
  last is named \<open>bcode_unref_bc\<close> here.
\<close>

definition bcode_incr :: "32 word list \<Rightarrow> nat \<Rightarrow> 32 word list" where
  "bcode_incr mem bc = mem[bc := mem ! bc + 0x100]"

definition bcode_decr :: "32 word list \<Rightarrow> nat \<Rightarrow> 32 word list \<times> nat option" where
  "bcode_decr mem bc =
     (let mem' = mem[bc := mem ! bc - 0x100] in
      if sint (mem' ! bc) < 0x100 then (mem', Some bc) else (mem', None))"

definition bcode_addref :: "32 word list \<Rightarrow> nat option \<Rightarrow> 32 word list option" where
  "bcode_addref mem code =
     (case code of
        None \<Rightarrow> Some mem
      | Some p \<Rightarrow>
          if length mem \<le> p then None
          else if mem ! p AND CODE_OP_MASK = CODE_START then Some (bcode_incr mem p)
          else if p = 0 then None
          else if mem ! (p - 1) AND CODE_OP_MASK = CODE_START then Some (bcode_incr mem (p - 1))
          else if mem ! (p - 1) AND CODE_OP_MASK = CODE_OFFSET then
            (let d = unat (drop_bit 8 (mem ! (p - 1))) in
             if p < d then None else Some (bcode_incr mem (p - d)))
          else Some mem)"

definition bcode_unref_bc :: "32 word list \<Rightarrow> nat option \<Rightarrow> (32 word list \<times> nat option) option" where
  "bcode_unref_bc mem code =
     (case code of
        None \<Rightarrow> Some (mem, None)
      | Some p \<Rightarrow>
          if length mem \<le> p then None
          else if mem ! p AND CODE_OP_MASK = CODE_START then Some (bcode_decr mem p)
          else if p = 0 then None
          else if mem ! (p - 1) AND CODE_OP_MASK = CODE_START then Some (bcode_decr mem (p - 1))
          else if mem ! (p - 1) AND CODE_OP_MASK = CODE_OFFSET then
            (let d = unat (drop_bit 8 (mem ! (p - 1))) in
             if p < d then None else Some (bcode_decr mem (p - d)))
          else Some (mem, None))"

section \<open>Floating-point values\<close>

text \<open>
  The arithmetic of IEEE 754 on the values of \<^typ>\<open>cfloat\<close>, computed exactly on
  fractions of natural numbers and rounded to nearest, ties to even. The same datatype
  carries the \<^verbatim>\<open>double\<close> values that \<^verbatim>\<open>strtod\<close> returns; a \<^verbatim>\<open>float\<close> is a value with
  24 bits of precision and exponent range, a \<^verbatim>\<open>double\<close> one with 53. The sign and the
  payload of a NaN are not modelled.
\<close>

fun nat_bitlen :: "nat \<Rightarrow> nat" where
  "nat_bitlen n = (if n = 0 then 0 else Suc (nat_bitlen (n div 2)))"

declare nat_bitlen.simps [simp del]

text \<open>\<open>frac_ge_pow2 n d k\<close>: the fraction \<open>n / d\<close> is at least \<open>2 ^ k\<close>.\<close>

definition frac_ge_pow2 :: "nat \<Rightarrow> nat \<Rightarrow> int \<Rightarrow> bool" where
  "frac_ge_pow2 n d k = (if 0 \<le> k then d * 2 ^ nat k \<le> n else d \<le> n * 2 ^ nat (- k))"

text \<open>The integer part of the binary logarithm of \<open>n / d\<close>, for positive \<open>n\<close> and \<open>d\<close>.\<close>

definition floor_log2 :: "nat \<Rightarrow> nat \<Rightarrow> int" where
  "floor_log2 n d =
     (let k = int (nat_bitlen n) - int (nat_bitlen d)
      in if frac_ge_pow2 n d k then k else k - 1)"

definition round_half_even :: "nat \<Rightarrow> nat \<Rightarrow> nat" where
  "round_half_even n d =
     (let q = n div d; r = n mod d
      in if 2 * r < d then q else if d < 2 * r then q + 1 else if even q then q else q + 1)"

text \<open>
  \<open>round_binary p emin emax n d\<close>: the fraction \<open>n / d\<close> rounded to precision \<open>p\<close>, as
  mantissa and exponent of the last place, which is at least \<open>emin\<close>; \<open>None\<close> when the
  rounded value exceeds the largest finite one, whose last place has exponent \<open>emax\<close>.
\<close>

definition round_binary :: "nat \<Rightarrow> int \<Rightarrow> int \<Rightarrow> nat \<Rightarrow> nat \<Rightarrow> (nat \<times> int) option" where
  "round_binary p emin emax n d =
     (if n = 0 then Some (0, 0)
      else
        (let e = max (floor_log2 n d - (int p - 1)) emin;
             m = (if 0 \<le> e then round_half_even n (d * 2 ^ nat e)
                  else round_half_even (n * 2 ^ nat (- e)) d)
         in if emax < e \<or> (e = emax \<and> m = 2 ^ p) then None else Some (m, e)))"

fun norm_odd :: "nat \<Rightarrow> int \<Rightarrow> nat \<times> int" where
  "norm_odd m e = (if m = 0 then (0, 0) else if even m then norm_odd (m div 2) (e + 1) else (m, e))"

declare norm_odd.simps [simp del]

definition mk_float :: "bool \<Rightarrow> (nat \<times> int) option \<Rightarrow> cfloat" where
  "mk_float neg r =
     (case r of
        None \<Rightarrow> FInf neg
      | Some (m, e) \<Rightarrow> if m = 0 then FZero neg else (case norm_odd m e of (m', e') \<Rightarrow> FNum neg m' e'))"

definition round_f32 :: "bool \<Rightarrow> nat \<Rightarrow> nat \<Rightarrow> cfloat" where
  "round_f32 neg n d = mk_float neg (round_binary 24 (- 149) 104 n d)"

definition round_f64 :: "bool \<Rightarrow> nat \<Rightarrow> nat \<Rightarrow> cfloat" where
  "round_f64 neg n d = mk_float neg (round_binary 53 (- 1074) 971 n d)"

text \<open>The magnitude \<open>m * 2 ^ e\<close> as a fraction.\<close>

definition mag_num :: "nat \<Rightarrow> int \<Rightarrow> nat" where
  "mag_num m e = (if 0 \<le> e then m * 2 ^ nat e else m)"

definition mag_den :: "int \<Rightarrow> nat" where
  "mag_den e = (if 0 \<le> e then 1 else 2 ^ nat (- e))"

text \<open>The conversion \<^verbatim>\<open>float(val)\<close> of a \<^verbatim>\<open>double\<close>.\<close>

definition double_to_float :: "cfloat \<Rightarrow> cfloat" where
  "double_to_float v =
     (case v of FNum neg m e \<Rightarrow> round_f32 neg (mag_num m e) (mag_den e) | _ \<Rightarrow> v)"

text \<open>The conversion \<^verbatim>\<open>float(i)\<close> of an \<^verbatim>\<open>int\<close>.\<close>

definition int_to_float :: "cint \<Rightarrow> cfloat" where
  "int_to_float i = round_f32 (sint i < 0) (nat \<bar>sint i\<bar>) 1"

text \<open>
  The value of a finite float on a grid fine enough for two of them: \<open>scaled e0 v\<close> is
  \<open>v / 2 ^ e0\<close>, an integer when \<open>e0\<close> is at most the exponent of \<open>v\<close>.
\<close>

definition flt_exp :: "cfloat \<Rightarrow> int" where
  "flt_exp v = (case v of FNum neg m e \<Rightarrow> e | _ \<Rightarrow> 0)"

definition scaled :: "int \<Rightarrow> cfloat \<Rightarrow> int" where
  "scaled e0 v =
     (case v of
        FNum neg m e \<Rightarrow> (if neg then - 1 else 1) * int m * 2 ^ nat (e - e0)
      | _ \<Rightarrow> 0)"

text \<open>The comparisons \<^verbatim>\<open><\<close>, \<^verbatim>\<open>==\<close>, \<^verbatim>\<open>>\<close> and \<^verbatim>\<open><=\<close> of C on floats: false when a NaN is involved.\<close>

definition flt_lt :: "cfloat \<Rightarrow> cfloat \<Rightarrow> bool" where
  "flt_lt a b =
     (case (a, b) of
        (FNaN, _) \<Rightarrow> False
      | (_, FNaN) \<Rightarrow> False
      | (FInf na, FInf nb) \<Rightarrow> na \<and> \<not> nb
      | (FInf na, _) \<Rightarrow> na
      | (_, FInf nb) \<Rightarrow> \<not> nb
      | _ \<Rightarrow> (let e0 = min (flt_exp a) (flt_exp b) in scaled e0 a < scaled e0 b))"

definition flt_eq :: "cfloat \<Rightarrow> cfloat \<Rightarrow> bool" where
  "flt_eq a b =
     (case (a, b) of
        (FNaN, _) \<Rightarrow> False
      | (_, FNaN) \<Rightarrow> False
      | (FInf na, FInf nb) \<Rightarrow> na = nb
      | (FInf na, _) \<Rightarrow> False
      | (_, FInf nb) \<Rightarrow> False
      | _ \<Rightarrow> (let e0 = min (flt_exp a) (flt_exp b) in scaled e0 a = scaled e0 b))"

definition flt_gt :: "cfloat \<Rightarrow> cfloat \<Rightarrow> bool" where
  "flt_gt a b = flt_lt b a"

definition flt_le :: "cfloat \<Rightarrow> cfloat \<Rightarrow> bool" where
  "flt_le a b = (flt_lt a b \<or> flt_eq a b)"

text \<open>The conversion of a float to \<^verbatim>\<open>bool\<close>, and \<^verbatim>\<open>v != 0\<close>: true unless the value is a zero.\<close>

definition flt_nonzero :: "cfloat \<Rightarrow> bool" where
  "flt_nonzero v = (case v of FZero neg \<Rightarrow> False | _ \<Rightarrow> True)"

definition flt_neg :: "cfloat \<Rightarrow> bool" where
  "flt_neg v = (case v of FNaN \<Rightarrow> False | FInf n \<Rightarrow> n | FZero n \<Rightarrow> n | FNum n m e \<Rightarrow> n)"

text \<open>The division of two floats.\<close>

definition flt_div :: "cfloat \<Rightarrow> cfloat \<Rightarrow> cfloat" where
  "flt_div a b =
     (let neg = (flt_neg a \<noteq> flt_neg b) in
      case (a, b) of
        (FNaN, _) \<Rightarrow> FNaN
      | (_, FNaN) \<Rightarrow> FNaN
      | (FInf na, FInf nb) \<Rightarrow> FNaN
      | (FInf na, _) \<Rightarrow> FInf neg
      | (_, FInf nb) \<Rightarrow> FZero neg
      | (FZero na, FZero nb) \<Rightarrow> FNaN
      | (_, FZero nb) \<Rightarrow> FInf neg
      | (FZero na, _) \<Rightarrow> FZero neg
      | (FNum na ma ea, FNum nb mb eb) \<Rightarrow>
          round_f32 neg (mag_num ma ea * mag_den eb) (mag_den ea * mag_num mb eb))"

text \<open>
  \<^verbatim>\<open>fmod\<close>: the remainder of the division with the quotient truncated, exact, with the
  sign of the dividend.
\<close>

definition flt_fmod :: "cfloat \<Rightarrow> cfloat \<Rightarrow> cfloat" where
  "flt_fmod a b =
     (case (a, b) of
        (FNaN, _) \<Rightarrow> FNaN
      | (_, FNaN) \<Rightarrow> FNaN
      | (FInf na, _) \<Rightarrow> FNaN
      | (_, FZero nb) \<Rightarrow> FNaN
      | (_, FInf nb) \<Rightarrow> a
      | (FZero na, _) \<Rightarrow> a
      | (FNum na ma ea, FNum nb mb eb) \<Rightarrow>
          (let e0 = min ea eb;
               r = (ma * 2 ^ nat (ea - e0)) mod (mb * 2 ^ nat (eb - e0))
           in mk_float na (Some (r, e0))))"

text \<open>
  The conversion \<^verbatim>\<open>int(v)\<close> of a float truncates. Outside the range of \<^verbatim>\<open>int\<close>, and for
  a NaN, C++ leaves it undefined; the value taken here is the one the conversion
  instruction of x86 returns, \<^verbatim>\<open>INT_MIN\<close>.
\<close>

definition INT_MIN :: cint where
  "INT_MIN = 0x80000000"

definition float_to_int :: "cfloat \<Rightarrow> cint" where
  "float_to_int v =
     (case v of
        FZero neg \<Rightarrow> 0
      | FNum neg m e \<Rightarrow>
          (let t = mag_num m e div mag_den e in
           if (neg \<and> t \<le> 2147483648) \<or> (\<not> neg \<and> t < 2147483648)
           then (if neg then - of_nat t else of_nat t)
           else INT_MIN)
      | _ \<Rightarrow> INT_MIN)"

section \<open>Numbers and strings\<close>

subsection \<open>Character classes of the C library\<close>

definition isspace :: "char \<Rightarrow> bool" where
  "isspace c = (c = CHR '' '' \<or> (9 \<le> (of_char c :: nat) \<and> (of_char c :: nat) \<le> 13))"

definition isoctal :: "char \<Rightarrow> bool" where
  "isoctal c = (48 \<le> (of_char c :: nat) \<and> (of_char c :: nat) \<le> 55)"

definition isxdigit :: "char \<Rightarrow> bool" where
  "isxdigit c =
     (isdigit c \<or> (65 \<le> (of_char c :: nat) \<and> (of_char c :: nat) \<le> 70)
      \<or> (97 \<le> (of_char c :: nat) \<and> (of_char c :: nat) \<le> 102))"

definition isalnum :: "char \<Rightarrow> bool" where
  "isalnum c =
     (isdigit c \<or> (65 \<le> (of_char c :: nat) \<and> (of_char c :: nat) \<le> 90)
      \<or> (97 \<le> (of_char c :: nat) \<and> (of_char c :: nat) \<le> 122))"

definition tolower :: "char \<Rightarrow> char" where
  "tolower c =
     (if 65 \<le> (of_char c :: nat) \<and> (of_char c :: nat) \<le> 90 then char_of ((of_char c :: nat) + 32)
      else c)"

text \<open>The value of a digit in a base up to 16.\<close>

definition digit_val :: "char \<Rightarrow> nat" where
  "digit_val c =
     (if isdigit c then (of_char c :: nat) - 48
      else if 97 \<le> (of_char c :: nat) then (of_char c :: nat) - 87
      else (of_char c :: nat) - 55)"

definition digits_val :: "nat \<Rightarrow> string \<Rightarrow> nat" where
  "digits_val base ds = foldl (\<lambda>acc c. acc * base + digit_val c) 0 ds"

subsection \<open>\<^verbatim>\<open>strtoul\<close> and \<^verbatim>\<open>parseint\<close>\<close>

text \<open>
  \<^verbatim>\<open>strtoul(s, &end, 0)\<close> of the C library, with a 64-bit \<^verbatim>\<open>unsigned long\<close>: white space,
  an optional sign, the prefix that selects the base (\<^verbatim>\<open>0x\<close> before a hexadecimal digit,
  a leading \<^verbatim>\<open>0\<close> for octal, decimal otherwise), the digits. A value that does not fit
  gives \<^verbatim>\<open>ULONG_MAX\<close>; a minus sign negates the value in the unsigned type. The result is
  the value and the number of characters consumed (0 when there is no digit).
\<close>

definition strtoul_digits :: "nat \<Rightarrow> (char \<Rightarrow> bool) \<Rightarrow> bool \<Rightarrow> string \<Rightarrow> 64 word \<times> nat" where
  "strtoul_digits base ok neg s =
     (let ds = takeWhile ok s; v = digits_val base ds
      in (if 2 ^ 64 \<le> v then - 1 else if neg then - of_nat v else of_nat v, length ds))"

definition strtoul :: "string \<Rightarrow> 64 word \<times> nat" where
  "strtoul s =
     (let s1 = dropWhile isspace s;
          neg = (s1 \<noteq> [] \<and> hd s1 = CHR ''-'');
          s2 = (if s1 \<noteq> [] \<and> (hd s1 = CHR ''-'' \<or> hd s1 = CHR ''+'') then tl s1 else s1);
          skipped = length s - length s2
      in if s2 \<noteq> [] \<and> hd s2 = CHR ''0'' \<and>
            (cstr_at s2 1 = CHR ''x'' \<or> cstr_at s2 1 = CHR ''X'') \<and> isxdigit (cstr_at s2 2)
         then (case strtoul_digits 16 isxdigit neg (drop 2 s2) of (v, n) \<Rightarrow> (v, skipped + 2 + n))
         else if s2 \<noteq> [] \<and> hd s2 = CHR ''0''
         then (case strtoul_digits 8 isoctal neg s2 of (v, n) \<Rightarrow> (v, skipped + n))
         else (case strtoul_digits 10 isdigit neg s2 of
                 (v, n) \<Rightarrow> if n = 0 then (0, 0) else (v, skipped + n)))"

definition parseint :: "string \<Rightarrow> cint" where
  "parseint s = ucast (fst (strtoul s))"

definition cs_parse_int :: "string \<Rightarrow> cint" where
  "cs_parse_int s = (if s = [] then 0 else parseint s)"

subsection \<open>\<^verbatim>\<open>strtod\<close> and \<^verbatim>\<open>parsefloat\<close>\<close>

text \<open>
  \<^verbatim>\<open>strtod\<close> of the C library (C99): white space, an optional sign, then an infinity,
  a NaN, a hexadecimal or a decimal floating-point number. The result is the
  \<^verbatim>\<open>double\<close> nearest to the number written and the number of characters consumed (0 when
  nothing converts).
\<close>

definition has_prefix_ci :: "string \<Rightarrow> string \<Rightarrow> bool" where
  "has_prefix_ci p s = (length p \<le> length s \<and> map tolower (take (length p) s) = p)"

text \<open>The exponent part: the letter, an optional sign and at least one decimal digit.\<close>

definition exponent_part :: "char \<Rightarrow> string \<Rightarrow> int \<times> nat" where
  "exponent_part letter s =
     (if s \<noteq> [] \<and> tolower (hd s) = letter then
        (let s1 = tl s;
             neg = (s1 \<noteq> [] \<and> hd s1 = CHR ''-'');
             s2 = (if s1 \<noteq> [] \<and> (hd s1 = CHR ''-'' \<or> hd s1 = CHR ''+'') then tl s1 else s1);
             ds = takeWhile isdigit s2
         in if ds = [] then (0, 0)
            else ((if neg then - int (digits_val 10 ds) else int (digits_val 10 ds)),
                  length s - length s2 + length ds))
      else (0, 0))"

text \<open>The value \<open>m * b ^ x\<close> rounded to a \<^verbatim>\<open>double\<close>.\<close>

definition scale_to_double :: "bool \<Rightarrow> nat \<Rightarrow> nat \<Rightarrow> int \<Rightarrow> cfloat" where
  "scale_to_double neg m b x =
     (if 0 \<le> x then round_f64 neg (m * b ^ nat x) 1 else round_f64 neg m (b ^ nat (- x)))"

definition strtod_number :: "nat \<Rightarrow> (char \<Rightarrow> bool) \<Rightarrow> char \<Rightarrow> nat \<Rightarrow> nat \<Rightarrow> bool \<Rightarrow> string
    \<Rightarrow> (cfloat \<times> nat) option" where
  "strtod_number base ok letter ebase bits neg s =
     (let ip = takeWhile ok s;
          s1 = drop (length ip) s;
          dot = (s1 \<noteq> [] \<and> hd s1 = CHR ''.'');
          fp = (if dot then takeWhile ok (tl s1) else []);
          s2 = (if dot then drop (length fp) (tl s1) else s1)
      in if ip = [] \<and> fp = [] then None
         else
           (case exponent_part letter s2 of
              (x, n) \<Rightarrow>
                Some (scale_to_double neg (digits_val base (ip @ fp)) ebase
                        (x - int (bits * length fp)),
                      length s - length s2 + n)))"

definition nan_chars :: "string \<Rightarrow> nat" where
  "nan_chars s =
     (if s \<noteq> [] \<and> hd s = CHR ''('' then
        (let cs = takeWhile (\<lambda>c. isalnum c \<or> c = CHR ''_'') (tl s)
         in if cstr_at s (1 + length cs) = CHR '')'' then length cs + 2 else 0)
      else 0)"

definition strtod :: "string \<Rightarrow> cfloat \<times> nat" where
  "strtod s =
     (let s1 = dropWhile isspace s;
          neg = (s1 \<noteq> [] \<and> hd s1 = CHR ''-'');
          s2 = (if s1 \<noteq> [] \<and> (hd s1 = CHR ''-'' \<or> hd s1 = CHR ''+'') then tl s1 else s1);
          skipped = length s - length s2
      in if has_prefix_ci ''infinity'' s2 then (FInf neg, skipped + 8)
         else if has_prefix_ci ''inf'' s2 then (FInf neg, skipped + 3)
         else if has_prefix_ci ''nan'' s2 then (FNaN, skipped + 3 + nan_chars (drop 3 s2))
         else
           (case (if has_prefix_ci ''0x'' s2
                  then strtod_number 16 isxdigit CHR ''p'' 2 4 neg (drop 2 s2) else None) of
              Some (v, n) \<Rightarrow> (v, skipped + 2 + n)
            | None \<Rightarrow>
                (case strtod_number 10 isdigit CHR ''e'' 10 1 neg s2 of
                   Some (v, n) \<Rightarrow> (v, skipped + n)
                 | None \<Rightarrow> (FZero False, 0))))"

definition parsefloat :: "string \<Rightarrow> cfloat" where
  "parsefloat s =
     (case strtod s of
        (val, n) \<Rightarrow>
          if flt_nonzero val \<or> n = 0 \<or> (cstr_at s n \<noteq> CHR ''x'' \<and> cstr_at s n \<noteq> CHR ''X'')
          then double_to_float val
          else int_to_float (parseint s))"

definition cs_parse_float :: "string \<Rightarrow> cfloat" where
  "cs_parse_float s = (if s = [] then FZero False else parsefloat s)"

subsection \<open>\<^verbatim>\<open>floatformat\<close> and \<^verbatim>\<open>floatstr\<close>\<close>

text \<open>The integer part of the decimal logarithm of \<open>n / d\<close>, for positive \<open>n\<close> and \<open>d\<close>.\<close>

function log10_up :: "nat \<Rightarrow> nat \<Rightarrow> nat" where
  "log10_up n d = (if d = 0 \<or> n < 10 * d then 0 else Suc (log10_up n (10 * d)))"
  by pat_completeness auto
termination
  by (relation "measure (\<lambda>(n, d). n - d)") auto

declare log10_up.simps [simp del]

function log10_down :: "nat \<Rightarrow> nat \<Rightarrow> nat" where
  "log10_down n d = (if n = 0 \<or> d \<le> n then 0 else Suc (log10_down (10 * n) d))"
  by pat_completeness auto
termination
  by (relation "measure (\<lambda>(n, d). d - n)") auto

declare log10_down.simps [simp del]

definition floor_log10 :: "nat \<Rightarrow> nat \<Rightarrow> int" where
  "floor_log10 n d = (if d \<le> n then int (log10_up n d) else - int (log10_down n d))"

definition pad_zeros :: "nat \<Rightarrow> string \<Rightarrow> string" where
  "pad_zeros w s = replicate (w - length s) CHR ''0'' @ s"

text \<open>\<open>n / d\<close> times \<open>10 ^ x\<close>, rounded to an integer.\<close>

definition round_scaled10 :: "nat \<Rightarrow> nat \<Rightarrow> int \<Rightarrow> nat" where
  "round_scaled10 n d x =
     (if 0 \<le> x then round_half_even (n * 10 ^ nat x) d else round_half_even n (d * 10 ^ nat (- x)))"

text \<open>\<^verbatim>\<open>%.<prec>f\<close> of the magnitude \<open>n / d\<close>.\<close>

definition fmt_fixed :: "nat \<Rightarrow> nat \<Rightarrow> nat \<Rightarrow> string" where
  "fmt_fixed prec n d =
     (let s = round_scaled10 n d (int prec)
      in dec_nat (s div 10 ^ prec) @
         (if prec = 0 then [] else CHR ''.'' # pad_zeros prec (dec_nat (s mod 10 ^ prec))))"

text \<open>
  The decimal exponent and the digits of \<^verbatim>\<open>%.<prec>e\<close> of the positive magnitude
  \<open>n / d\<close>: \<open>prec + 1\<close> significant digits after rounding.
\<close>

definition exp_digits :: "nat \<Rightarrow> nat \<Rightarrow> nat \<Rightarrow> int \<times> nat" where
  "exp_digits prec n d =
     (let x0 = floor_log10 n d;
          m = round_scaled10 n d (int prec - x0)
      in if m = 10 ^ (prec + 1) then (x0 + 1, 10 ^ prec) else (x0, m))"

definition strip_zeros :: "string \<Rightarrow> string" where
  "strip_zeros s =
     (if CHR ''.'' \<in> set s then
        (let t = rev (dropWhile (\<lambda>c. c = CHR ''0'') (rev s))
         in if t \<noteq> [] \<and> last t = CHR ''.'' then butlast t else t)
      else s)"

definition fmt_exp_suffix :: "int \<Rightarrow> string" where
  "fmt_exp_suffix x =
     CHR ''e'' # (if x < 0 then CHR ''-'' else CHR ''+'') # pad_zeros 2 (dec_nat (nat \<bar>x\<bar>))"

text \<open>\<^verbatim>\<open>%.<p>g\<close> of the magnitude \<open>n / d\<close>, for a precision \<open>p\<close> of at least 1.\<close>

definition fmt_general :: "nat \<Rightarrow> nat \<Rightarrow> nat \<Rightarrow> string" where
  "fmt_general p n d =
     (if n = 0 then strip_zeros (fmt_fixed (p - 1) 0 1)
      else
        (case exp_digits (p - 1) n d of
           (x, m) \<Rightarrow>
             if x < - 4 \<or> int p \<le> x then
               (let ds = dec_nat m
                in strip_zeros (hd ds # CHR ''.'' # tl ds) @ fmt_exp_suffix x)
             else strip_zeros (fmt_fixed (nat (int p - 1 - x)) n d)))"

definition with_sign :: "bool \<Rightarrow> string \<Rightarrow> string" where
  "with_sign neg s = (if neg then CHR ''-'' # s else s)"

text \<open>
  \<^verbatim>\<open>floatformat\<close>: \<^verbatim>\<open>snprintf(buf, len, v == int(v) ? "%.1f" : "%.7g", v)\<close>. The output has
  at most 13 characters, below both buffer lengths (20 and 256).
\<close>

definition floatformat :: "cfloat \<Rightarrow> string" where
  "floatformat v =
     (let fixed1 = flt_eq v (int_to_float (float_to_int v)) in
      case v of
        FNaN \<Rightarrow> ''nan''
      | FInf neg \<Rightarrow> with_sign neg ''inf''
      | FZero neg \<Rightarrow> with_sign neg (if fixed1 then fmt_fixed 1 0 1 else fmt_general 7 0 1)
      | FNum neg m e \<Rightarrow>
          with_sign neg
            (if fixed1 then fmt_fixed 1 (mag_num m e) (mag_den e)
             else fmt_general 7 (mag_num m e) (mag_den e)))"

definition floatstr :: "cfloat \<Rightarrow> string" where
  "floatstr v = floatformat v"

section \<open>Tagged values\<close>

text \<open>
  The type tags. The class declaration is not among the sources; the numbering is the one
  the code fixes: \<^verbatim>\<open>RET_NULL\<close> to \<^verbatim>\<open>RET_STR\<close> are the tags shifted by \<^verbatim>\<open>CODE_RET\<close> under
  the mask \<^verbatim>\<open>0xC0\<close>, the rows of \<^verbatim>\<open>emptyblock[VAL_ANY]\<close> are in the order null, int,
  float, string, and a tag fits the low four bits of \<^verbatim>\<open>p_type\<close>, the string length
  standing above (\<^verbatim>\<open>VAL_STR | (n.size() << 4)\<close>).
\<close>

datatype val_type =
  VAL_NULL | VAL_INT | VAL_FLOAT | VAL_STR | VAL_ANY | VAL_CODE | VAL_MACRO | VAL_IDENT
  | VAL_CSTR | VAL_CANY | VAL_WORD | VAL_POP | VAL_COND

fun val_code :: "val_type \<Rightarrow> 32 word" where
  "val_code VAL_NULL = 0"
| "val_code VAL_INT = 1"
| "val_code VAL_FLOAT = 2"
| "val_code VAL_STR = 3"
| "val_code VAL_ANY = 4"
| "val_code VAL_CODE = 5"
| "val_code VAL_MACRO = 6"
| "val_code VAL_IDENT = 7"
| "val_code VAL_CSTR = 8"
| "val_code VAL_CANY = 9"
| "val_code VAL_WORD = 10"
| "val_code VAL_POP = 11"
| "val_code VAL_COND = 12"

definition RET_NULL :: "32 word" where "RET_NULL = push_bit CODE_RET (val_code VAL_NULL)"
definition RET_STR :: "32 word" where "RET_STR = push_bit CODE_RET (val_code VAL_STR)"
definition RET_INT :: "32 word" where "RET_INT = push_bit CODE_RET (val_code VAL_INT)"
definition RET_FLOAT :: "32 word" where "RET_FLOAT = push_bit CODE_RET (val_code VAL_FLOAT)"

fun get_type :: "tagged_value \<Rightarrow> val_type" where
  "get_type VNull = VAL_NULL"
| "get_type (VInt i) = VAL_INT"
| "get_type (VFloat f) = VAL_FLOAT"
| "get_type (VStr s) = VAL_STR"
| "get_type (VCode c p) = VAL_CODE"
| "get_type (VMacro s) = VAL_MACRO"
| "get_type (VIdent i) = VAL_IDENT"
| "get_type (VCstr s) = VAL_CSTR"

fun force_float :: "tagged_value \<Rightarrow> tagged_value" where
  "force_float (VInt i) = VFloat (int_to_float i)"
| "force_float (VStr s) = VFloat (parsefloat s)"
| "force_float (VMacro s) = VFloat (parsefloat s)"
| "force_float (VCstr s) = VFloat (parsefloat s)"
| "force_float (VFloat f) = VFloat f"
| "force_float v = VFloat (FZero False)"

fun force_int :: "tagged_value \<Rightarrow> tagged_value" where
  "force_int (VFloat f) = VInt (float_to_int f)"
| "force_int (VStr s) = VInt (parseint s)"
| "force_int (VMacro s) = VInt (parseint s)"
| "force_int (VCstr s) = VInt (parseint s)"
| "force_int (VInt i) = VInt i"
| "force_int v = VInt 0"

fun force_str :: "tagged_value \<Rightarrow> tagged_value" where
  "force_str (VFloat f) = VStr (floatstr f)"
| "force_str (VInt i) = VStr (intstr i)"
| "force_str (VMacro s) = VStr s"
| "force_str (VCstr s) = VStr s"
| "force_str (VStr s) = VStr s"
| "force_str v = VStr []"

text \<open>
  \<^verbatim>\<open>TaggedValue::force(int type)\<close>, as the source has it: the \<^verbatim>\<open>switch\<close> is on the tag of
  the value, its cases are the \<^verbatim>\<open>RET_\<close> constants, and the argument is compared with the
  \<^verbatim>\<open>VAL_\<close> constants.
\<close>

definition force :: "tagged_value \<Rightarrow> 32 word \<Rightarrow> tagged_value" where
  "force v type =
     (let t = val_code (get_type v) in
      if t = RET_STR then (if type \<noteq> val_code VAL_STR then force_str v else v)
      else if t = RET_INT then (if type \<noteq> val_code VAL_INT then force_int v else v)
      else if t = RET_FLOAT then (if type \<noteq> val_code VAL_FLOAT then force_float v else v)
      else v)"

fun get_int :: "tagged_value \<Rightarrow> cint" where
  "get_int (VFloat f) = float_to_int f"
| "get_int (VInt i) = i"
| "get_int (VStr s) = parseint s"
| "get_int (VMacro s) = parseint s"
| "get_int (VCstr s) = parseint s"
| "get_int v = 0"

fun get_float :: "tagged_value \<Rightarrow> cfloat" where
  "get_float (VFloat f) = f"
| "get_float (VInt i) = int_to_float i"
| "get_float (VStr s) = parsefloat s"
| "get_float (VMacro s) = parsefloat s"
| "get_float (VCstr s) = parsefloat s"
| "get_float v = FZero False"

fun get_str :: "tagged_value \<Rightarrow> string" where
  "get_str (VStr s) = s"
| "get_str (VMacro s) = s"
| "get_str (VCstr s) = s"
| "get_str (VInt i) = intstr i"
| "get_str (VFloat f) = floatstr f"
| "get_str v = []"

subsection \<open>The conversion to a truth value\<close>

text \<open>\<^verbatim>\<open>cs_get_bool(ostd::ConstCharRange)\<close>; \<open>end_char\<close> is \<^verbatim>\<open>*end\<close> after \<^verbatim>\<open>strtoul\<close>.\<close>

definition end_char :: "string \<Rightarrow> char" where
  "end_char s = cstr_at s (snd (strtoul s))"

definition get_bool_zero_case :: "string \<Rightarrow> bool" where
  "get_bool_zero_case s =
     (if parseint s \<noteq> 0 then True
      else if end_char s = CHR ''e'' \<or> end_char s = CHR ''.'' then flt_nonzero (cs_parse_float s)
      else False)"

definition cs_get_bool_str :: "string \<Rightarrow> bool" where
  "cs_get_bool_str s =
     (if s = [] then False
      else if hd s = CHR ''+'' \<or> hd s = CHR ''-'' then
        (if cstr_at s 1 = CHR ''0'' then get_bool_zero_case s
         else if cstr_at s 1 = CHR ''.'' then
           \<not> isdigit (cstr_at s 2) \<or> flt_nonzero (cs_parse_float s)
         else True)
      else if hd s = CHR ''0'' then get_bool_zero_case s
      else if hd s = CHR ''.'' then \<not> isdigit (cstr_at s 1) \<or> flt_nonzero (cs_parse_float s)
      else if hd s = NUL then False
      else True)"

text \<open>\<^verbatim>\<open>cs_get_bool(TaggedValue const &)\<close>.\<close>

fun cs_get_bool :: "tagged_value \<Rightarrow> bool" where
  "cs_get_bool (VFloat f) = flt_nonzero f"
| "cs_get_bool (VInt i) = (i \<noteq> 0)"
| "cs_get_bool (VStr s) = cs_get_bool_str s"
| "cs_get_bool (VMacro s) = cs_get_bool_str s"
| "cs_get_bool (VCstr s) = cs_get_bool_str s"
| "cs_get_bool v = False"

section \<open>The arithmetic commands\<close>

text \<open>
  What C++ leaves undefined in integer division: a zero divisor, and the quotient of
  \<^verbatim>\<open>INT_MIN\<close> by \<open>-1\<close>, which does not fit (the remainder is undefined with it).
\<close>

datatype c_undefined = DivisionByZero | SignedOverflow

definition trunc_div :: "int \<Rightarrow> int \<Rightarrow> int" where
  "trunc_div a b = sgn a * sgn b * (\<bar>a\<bar> div \<bar>b\<bar>)"

definition c_int_div :: "cint \<Rightarrow> cint \<Rightarrow> c_undefined + cint" where
  "c_int_div a b =
     (if b = 0 then Inl DivisionByZero
      else if a = INT_MIN \<and> b = - 1 then Inl SignedOverflow
      else Inr (word_of_int (trunc_div (sint a) (sint b))))"

definition c_int_mod :: "cint \<Rightarrow> cint \<Rightarrow> c_undefined + cint" where
  "c_int_mod a b =
     (if b = 0 then Inl DivisionByZero
      else if a = INT_MIN \<and> b = - 1 then Inl SignedOverflow
      else Inr (word_of_int (sint a - sint b * trunc_div (sint a) (sint b))))"

text \<open>
  Division of floats is defined by IEEE 754 for every pair of operands; a zero divisor is
  still told apart here, to state that the commands never divide by one.
\<close>

definition c_float_div :: "cfloat \<Rightarrow> cfloat \<Rightarrow> c_undefined + cfloat" where
  "c_float_div a b = (if \<not> flt_nonzero b then Inl DivisionByZero else Inr (flt_div a b))"

definition c_float_fmod :: "cfloat \<Rightarrow> cfloat \<Rightarrow> c_undefined + cfloat" where
  "c_float_fmod a b = (if \<not> flt_nonzero b then Inl DivisionByZero else Inr (flt_fmod a b))"

text \<open>
  The body of a command made by \<^verbatim>\<open>CS_CMD_MATH\<close>, on the operands read from the
  arguments: \<open>op\<close> folds them from the left; with fewer than two arguments \<open>unaryop\<close> is
  applied to the only one, or to \<open>initval\<close>. The result is the final \<^verbatim>\<open>val\<close>. (The macro
  ends there: it does not store \<^verbatim>\<open>val\<close> in the result of the command.)
\<close>

fun math_fold :: "('a \<Rightarrow> 'a \<Rightarrow> c_undefined + 'a) \<Rightarrow> 'a \<Rightarrow> 'a list \<Rightarrow> c_undefined + 'a" where
  "math_fold opr val [] = Inr val"
| "math_fold opr val (val2 # rest) =
     (case opr val val2 of Inl u \<Rightarrow> Inl u | Inr v \<Rightarrow> math_fold opr v rest)"

definition CS_CMD_MATH ::
  "('a \<Rightarrow> 'a \<Rightarrow> c_undefined + 'a) \<Rightarrow> 'a \<Rightarrow> ('a \<Rightarrow> 'a) \<Rightarrow> 'a list \<Rightarrow> c_undefined + 'a" where
  "CS_CMD_MATH opr initval unaryop args =
     (if 2 \<le> length args then math_fold opr (hd args) (tl args)
      else Inr (unaryop (if args \<noteq> [] then hd args else initval)))"

text \<open>\<^verbatim>\<open>CS_CMD_DIV\<close>: the operation is \<^verbatim>\<open>{ if (val2) op; else val = 0; }\<close>.\<close>

definition CS_CMD_DIV ::
  "('a \<Rightarrow> bool) \<Rightarrow> 'a \<Rightarrow> ('a \<Rightarrow> 'a \<Rightarrow> c_undefined + 'a) \<Rightarrow> 'a list \<Rightarrow> c_undefined + 'a" where
  "CS_CMD_DIV nonzero zero opr args =
     CS_CMD_MATH (\<lambda>val val2. if nonzero val2 then opr val val2 else Inr zero) zero id args"

definition cmd_div :: "cint list \<Rightarrow> c_undefined + cint" where
  "cmd_div = CS_CMD_DIV (\<lambda>v. v \<noteq> 0) 0 c_int_div"

definition cmd_mod :: "cint list \<Rightarrow> c_undefined + cint" where
  "cmd_mod = CS_CMD_DIV (\<lambda>v. v \<noteq> 0) 0 c_int_mod"

definition cmd_divf :: "cfloat list \<Rightarrow> c_undefined + cfloat" where
  "cmd_divf = CS_CMD_DIV flt_nonzero (FZero False) c_float_div"

definition cmd_modf :: "cfloat list \<Rightarrow> c_undefined + cfloat" where
  "cmd_modf = CS_CMD_DIV flt_nonzero (FZero False) c_float_fmod"

section \<open>Float variables and the other operations on variables\<close>

text \<open>
  The constructor of a float variable,
  \<^verbatim>\<open>Ident(int t, ConstCharRange n, float m, float x, float *s, VarCb f, int flagsv)\<close>.
\<close>

definition Ident_fvar :: "string \<Rightarrow> cfloat \<Rightarrow> cfloat \<Rightarrow> cfloat \<Rightarrow> cint \<Rightarrow> ident" where
  "Ident_fvar n m x s flagsv =
     (blank_ident ID_FVAR n (flagsv OR (if flt_gt m x then IDF_READONLY else 0)))
       \<lparr>minvalf := m, maxvalf := x, storage_fp := s\<rparr>"

definition fmin :: "cfloat \<Rightarrow> cfloat \<Rightarrow> cfloat" where
  "fmin a b = (if flt_lt b a then b else a)"

definition fmax :: "cfloat \<Rightarrow> cfloat \<Rightarrow> cfloat" where
  "fmax a b = (if flt_lt a b then b else a)"

definition ostd_clampf :: "cfloat \<Rightarrow> cfloat \<Rightarrow> cfloat \<Rightarrow> cfloat" where
  "ostd_clampf v lo hi = fmax lo (fmin v hi)"

definition save_override_f :: "ident \<Rightarrow> ident" where
  "save_override_f d = d\<lparr>overrideval_f := storage_fp d\<rparr>"

definition set_var_float :: "cs_state \<Rightarrow> string \<Rightarrow> cfloat \<Rightarrow> bool \<Rightarrow> bool \<Rightarrow> cs_state" where
  "set_var_float cs name v dofunc doclamp =
     (case idents cs name of
        None \<Rightarrow> cs
      | Some i \<Rightarrow>
          if id_type (identmap cs ! i) \<noteq> ID_FVAR then cs
          else
            (let (success, cs1) = cs_override_var cs i save_override_f id id in
             if \<not> success then cs1
             else
               (let cs2 = upd_ident cs1 i
                     (\<lambda>d. d\<lparr>storage_fp :=
                        (if doclamp then ostd_clampf v (minvalf d) (maxvalf d) else v)\<rparr>)
                in if dofunc then changed cs2 i else cs2)))"

text \<open>
  The message of \<^verbatim>\<open>cs_clamp_fvar\<close>. The call passes two strings for the three
  conversions of its format; they fill the first two, and the third is left empty here.
\<close>

definition frange_msg :: "ident \<Rightarrow> string" where
  "frange_msg idn =
     ''valid range for '' @ [CHR 0x27] @ floatstr (minvalf idn) @ [CHR 0x27] @ '' is '' @
     floatstr (maxvalf idn) @ ''..''"

definition cs_clamp_fvar :: "cs_state \<Rightarrow> nat \<Rightarrow> cfloat \<Rightarrow> cfloat \<times> cs_state" where
  "cs_clamp_fvar cs i v =
     (let idn = identmap cs ! i in
      if flt_lt v (minvalf idn) then (minvalf idn, cs_debug_code cs (frange_msg idn))
      else if flt_gt v (maxvalf idn) then (maxvalf idn, cs_debug_code cs (frange_msg idn))
      else (v, cs))"

definition set_var_float_checked :: "cs_state \<Rightarrow> nat \<Rightarrow> cfloat \<Rightarrow> cs_state" where
  "set_var_float_checked cs i v =
     (let idn = identmap cs ! i in
      if has_flag (id_flags idn) IDF_READONLY then
        cs_debug_code cs (''variable '' @ [CHR 0x27] @ id_name idn @ [CHR 0x27] @ '' is read only'')
      else
        (let (success, cs1) = cs_override_var cs i save_override_f id id in
         if \<not> success then cs1
         else
           (let d = identmap cs1 ! i;
                (v', cs2) = (if flt_lt v (minvalf d) \<or> flt_gt v (maxvalf d)
                             then cs_clamp_fvar cs1 i v else (v, cs1));
                cs3 = upd_ident cs2 i (\<lambda>d. d\<lparr>storage_fp := v'\<rparr>)
            in changed cs3 i)))"

text \<open>
  \<^verbatim>\<open>CsState::clear_override\<close>. For an alias the value becomes the empty string and the
  cached code is dropped (\<^verbatim>\<open>clean_code\<close>); when the value is already an empty string the
  source leaves the \<^verbatim>\<open>switch\<close> early.
\<close>

definition clean_code :: "ident \<Rightarrow> ident" where
  "clean_code d = d\<lparr>id_code := None\<rparr>"

definition clear_override :: "cs_state \<Rightarrow> nat \<Rightarrow> cs_state" where
  "clear_override cs i =
     (let idn = identmap cs ! i in
      if \<not> has_flag (id_flags idn) IDF_OVERRIDDEN then cs
      else
        (let cs1 =
           (case id_type idn of
              ID_ALIAS \<Rightarrow>
                (if id_val idn = VStr [] then cs
                 else upd_ident cs i (\<lambda>d. (clean_code d)\<lparr>id_val := VStr []\<rparr>))
            | ID_VAR \<Rightarrow> changed (upd_ident cs i (\<lambda>d. d\<lparr>storage_ip := overrideval_i d\<rparr>)) i
            | ID_FVAR \<Rightarrow> changed (upd_ident cs i (\<lambda>d. d\<lparr>storage_fp := overrideval_f d\<rparr>)) i
            | ID_SVAR \<Rightarrow> changed (upd_ident cs i (\<lambda>d. d\<lparr>storage_sp := overrideval_s d\<rparr>)) i
            | _ \<Rightarrow> cs)
         in upd_ident cs1 i (\<lambda>d. d\<lparr>id_flags := id_flags d AND NOT IDF_OVERRIDDEN\<rparr>)))"

definition clear_overrides :: "cs_state \<Rightarrow> cs_state" where
  "clear_overrides cs = fold (\<lambda>i c. clear_override c i) [0 ..< length (identmap cs)] cs"

definition reset_var :: "cs_state \<Rightarrow> string \<Rightarrow> bool \<times> cs_state" where
  "reset_var cs name =
     (case idents cs name of
        None \<Rightarrow> (False, cs)
      | Some i \<Rightarrow>
          if has_flag (id_flags (identmap cs ! i)) IDF_READONLY then
            (False, cs_debug_code cs (''variable '' @ id_name (identmap cs ! i) @ '' is read only''))
          else (True, clear_override cs i))"

definition touch_var :: "cs_state \<Rightarrow> string \<Rightarrow> cs_state" where
  "touch_var cs name =
     (case idents cs name of
        None \<Rightarrow> cs
      | Some i \<Rightarrow>
          if id_type (identmap cs ! i) \<in> {ID_VAR, ID_FVAR, ID_SVAR} then changed cs i else cs)"

text \<open>The operations of the interpreter on variables, as one type, and their effect.\<close>

datatype var_op =
  SetVarInt string cint bool bool
  | SetVarIntChecked nat cint
  | SetVarFloat string cfloat bool bool
  | SetVarFloatChecked nat cfloat
  | ClearOverride nat
  | ClearOverrides
  | ResetVar string
  | TouchVar string

fun apply_var_op :: "var_op \<Rightarrow> cs_state \<Rightarrow> cs_state" where
  "apply_var_op (SetVarInt name v dofunc doclamp) cs = set_var_int cs name v dofunc doclamp"
| "apply_var_op (SetVarIntChecked i v) cs = set_var_int_checked cs i v"
| "apply_var_op (SetVarFloat name v dofunc doclamp) cs = set_var_float cs name v dofunc doclamp"
| "apply_var_op (SetVarFloatChecked i v) cs = set_var_float_checked cs i v"
| "apply_var_op (ClearOverride i) cs = clear_override cs i"
| "apply_var_op ClearOverrides cs = clear_overrides cs"
| "apply_var_op (ResetVar name) cs = snd (reset_var cs name)"
| "apply_var_op (TouchVar name) cs = touch_var cs name"

subsection \<open>Predicates used to state the properties of the variable setters\<close>

text \<open>The case in which \<^verbatim>\<open>cs_override_var\<close> refuses the assignment.\<close>

definition override_refused :: "cs_state \<Rightarrow> nat \<Rightarrow> bool" where
  "override_refused cs i =
     ((has_flag (identflags cs) IDF_OVERRIDDEN \<or> has_flag (id_flags (identmap cs ! i)) IDF_OVERRIDE)
      \<and> has_flag (id_flags (identmap cs ! i)) IDF_PERSIST)"

text \<open>The nearest bound of a range, in the words of the specification.\<close>

definition nearest_bound :: "cint \<Rightarrow> cint \<Rightarrow> cint \<Rightarrow> cint" where
  "nearest_bound v lo hi = (if v <s lo then lo else if hi <s v then hi else v)"

text \<open>The state of a fresh interpreter with an integer variable \<^verbatim>\<open>v\<close> of range 0..100 and value 5.\<close>

definition state_with_v :: cs_state where
  "state_with_v = snd (add_ident CsState_init (Ident_var ''v'' 0 100 5 0))"

subsection \<open>The numeric-name rule, as stated and as implemented\<close>

text \<open>
  The rule in the words of the specification: the name begins with a digit, or with
  \<^verbatim>\<open>+\<close>, \<^verbatim>\<open>-\<close> or \<^verbatim>\<open>.\<close> followed by a digit.
\<close>

definition claimed_numeric_name :: "string \<Rightarrow> bool" where
  "claimed_numeric_name s =
     (isdigit (cstr_at s 0) \<or>
      ((cstr_at s 0 = CHR ''+'' \<or> cstr_at s 0 = CHR ''-'' \<or> cstr_at s 0 = CHR ''.'')
        \<and> isdigit (cstr_at s 1)))"

text \<open>
  The rule the code implements, written on the characters of the name: a digit first; or a
  sign followed by a digit, or by a dot and a digit; or a dot followed by a digit.
\<close>

fun numeric_name :: "string \<Rightarrow> bool" where
  "numeric_name [] = False"
| "numeric_name [c] = isdigit c"
| "numeric_name (c # d # r) =
     (isdigit c \<or>
      ((c = CHR ''+'' \<or> c = CHR ''-'') \<and> (isdigit d \<or> (d = CHR ''.'' \<and> r \<noteq> [] \<and> isdigit (hd r)))) \<or>
      (c = CHR ''.'' \<and> isdigit d))"

definition not_valid_msg :: "string \<Rightarrow> string" where
  "not_valid_msg name = ''number '' @ name @ '' is not a valid identifier name''"

subsection \<open>The two entry shapes of a code pointer\<close>

text \<open>
  The count a block holds in band: the \<^verbatim>\<open>START\<close> word read as the code reads it for the
  test that frees the block (\<^verbatim>\<open>int(*code)\<close>), without its low byte.
\<close>

definition refcount :: "32 word \<Rightarrow> int" where
  "refcount w = sint w div 256"

text \<open>The pointer \<open>p\<close> points at the \<^verbatim>\<open>START\<close> word of the block.\<close>

definition start_shape :: "32 word list \<Rightarrow> nat \<Rightarrow> bool" where
  "start_shape mem p = (p < length mem \<and> mem ! p AND CODE_OP_MASK = CODE_START)"

text \<open>
  The pointer \<open>p\<close> points at an instruction inside the block whose \<^verbatim>\<open>START\<close> word is at
  \<open>s\<close>: the word before it is an \<^verbatim>\<open>OFFSET\<close> instruction whose payload is the distance
  from \<open>s\<close> to \<open>p\<close>.
\<close>

definition offset_shape :: "32 word list \<Rightarrow> nat \<Rightarrow> nat \<Rightarrow> bool" where
  "offset_shape mem s p =
     (s < p \<and> p < length mem \<and> mem ! p AND CODE_OP_MASK \<noteq> CODE_START \<and>
      mem ! (p - 1) AND CODE_OP_MASK = CODE_OFFSET \<and>
      unat (drop_bit 8 (mem ! (p - 1))) = p - s)"

text \<open>A block as the compiler lays it out: \<^verbatim>\<open>START\<close> with one reference, a block at 1.\<close>

definition example_block :: "32 word list" where
  "example_block =
     [CODE_START + 0x100, CODE_BLOCK OR push_bit 8 4, CODE_OFFSET OR push_bit 8 3,
      CODE_VALI OR 0x40 OR push_bit 8 7, CODE_RESULT, CODE_EXIT, CODE_EXIT]"

subsection \<open>The bounds of a numeric variable\<close>

text \<open>The bounds of a numeric variable are in order, or the variable is read-only.\<close>

definition bounds_ok :: "ident \<Rightarrow> bool" where
  "bounds_ok d =
     (case id_type d of
        ID_VAR \<Rightarrow> minval d \<le>s maxval d \<or> has_flag (id_flags d) IDF_READONLY
      | ID_FVAR \<Rightarrow> flt_le (minvalf d) (maxvalf d) \<or> has_flag (id_flags d) IDF_READONLY
      | _ \<Rightarrow> True)"

text \<open>What an operation on variables leaves alone in an identifier.\<close>

definition same_bounds :: "ident \<Rightarrow> ident \<Rightarrow> bool" where
  "same_bounds d d' =
     (id_type d' = id_type d \<and> id_name d' = id_name d \<and>
      minval d' = minval d \<and> maxval d' = maxval d \<and>
      minvalf d' = minvalf d \<and> maxvalf d' = maxvalf d \<and>
      has_flag (id_flags d') IDF_READONLY = has_flag (id_flags d) IDF_READONLY)"

definition frame_rel :: "cs_state \<Rightarrow> cs_state \<Rightarrow> bool" where
  "frame_rel cs cs' = list_all2 same_bounds (identmap cs) (identmap cs')"

section \<open>Properties\<close>

subsection \<open>Flags, diagnostics and updates\<close>

lemma has_flag_bits:
  "has_flag f IDF_PERSIST = bit f 0"
  "has_flag f IDF_OVERRIDE = bit f 1"
  "has_flag f IDF_HEX = bit f 2"
  "has_flag f IDF_READONLY = bit f 3"
  "has_flag f IDF_OVERRIDDEN = bit f 4"
  "has_flag f IDF_UNKNOWN = bit f 5"
  "has_flag f IDF_ARG = bit f 6"
  using and_exp_eq_0_iff_not_bit [of f 0] and_exp_eq_0_iff_not_bit [of f 1]
    and_exp_eq_0_iff_not_bit [of f 2] and_exp_eq_0_iff_not_bit [of f 3]
    and_exp_eq_0_iff_not_bit [of f 4] and_exp_eq_0_iff_not_bit [of f 5]
    and_exp_eq_0_iff_not_bit [of f 6]
  by (simp_all add: has_flag_def IDF_PERSIST_def IDF_OVERRIDE_def IDF_HEX_def IDF_READONLY_def
      IDF_OVERRIDDEN_def IDF_UNKNOWN_def IDF_ARG_def)

lemma bit_flag_consts:
  "bit IDF_READONLY n = (n = 3)"
  "bit IDF_OVERRIDDEN n = (n = 4)"
  "bit IDF_UNKNOWN n = (n = 5)"
proof -
  have "(8 :: cint) = 2 ^ 3" "(16 :: cint) = 2 ^ 4" "(32 :: cint) = 2 ^ 5" by simp_all
  then show "bit IDF_READONLY n = (n = 3)" "bit IDF_OVERRIDDEN n = (n = 4)"
    "bit IDF_UNKNOWN n = (n = 5)"
    unfolding IDF_READONLY_def IDF_OVERRIDDEN_def IDF_UNKNOWN_def
    by (auto simp only: bit_exp_iff) simp_all
qed

lemma bit_set_overridden: "bit (f OR IDF_OVERRIDDEN) n = (bit f n \<or> n = 4)" for f :: cint
  by (simp add: bit_or_iff bit_flag_consts)

lemma bit_clear_overridden: "bit (f AND NOT IDF_OVERRIDDEN) n = (bit f n \<and> n \<noteq> 4)" for f :: cint
  by (auto simp add: bit_and_iff bit_not_iff bit_flag_consts dest: bit_imp_le_length)

lemma bit_or_readonly: "bit (f OR IDF_READONLY) n = (bit f n \<or> n = 3)" for f :: cint
  by (simp add: bit_or_iff bit_flag_consts)

lemma err_out_cs_debug_code:
  "err_out (cs_debug_code cs msg) = err_out cs @ (if nodebug cs = 0 then msg # cs_debug_alias cs else [])"
  by (simp add: cs_debug_code_def)

lemma tables_cs_debug_code [simp]:
  "identmap (cs_debug_code cs msg) = identmap cs"
  "idents (cs_debug_code cs msg) = idents cs"
  "var_changed (cs_debug_code cs msg) = var_changed cs"
  "identflags (cs_debug_code cs msg) = identflags cs"
  "nodebug (cs_debug_code cs msg) = nodebug cs"
  by (simp_all add: cs_debug_code_def)

lemma fields_upd_ident [simp]:
  "idents (upd_ident cs i f) = idents cs"
  "err_out (upd_ident cs i f) = err_out cs"
  "nodebug (upd_ident cs i f) = nodebug cs"
  "identflags (upd_ident cs i f) = identflags cs"
  "var_changed (upd_ident cs i f) = var_changed cs"
  "length (identmap (upd_ident cs i f)) = length (identmap cs)"
  by (simp_all add: upd_ident_def)

lemma identmap_upd_ident_same [simp]:
  "i < length (identmap cs) \<Longrightarrow> identmap (upd_ident cs i f) ! i = f (identmap cs ! i)"
  by (simp add: upd_ident_def)

lemma identmap_upd_ident_other [simp]:
  "j \<noteq> i \<Longrightarrow> identmap (upd_ident cs i f) ! j = identmap cs ! j"
  by (simp add: upd_ident_def)

lemma fields_changed [simp]:
  "identmap (changed cs i) = identmap cs"
  "idents (changed cs i) = idents cs"
  "err_out (changed cs i) = err_out cs"
  "nodebug (changed cs i) = nodebug cs"
  by (simp_all add: changed_def)

lemma link_name_upd_ident:
  assumes "\<And>d. id_name (f d) = id_name d"
  shows "link_name (upd_ident cs i f) = link_name cs"
proof
  fix l
  show "link_name (upd_ident cs i f) l = link_name cs l"
  proof (cases "link_id l")
    case None
    then show ?thesis by (simp add: link_name_def)
  next
    case (Some a)
    have "id_name ((identmap cs)[i := f (identmap cs ! i)] ! a) = id_name (identmap cs ! a)"
      using assms by (cases "i < length (identmap cs)") (simp_all add: nth_list_update not_less list_update_beyond)
    with Some show ?thesis by (simp add: link_name_def upd_ident_def)
  qed
qed

lemma cs_debug_alias_upd_ident:
  assumes "\<And>d. id_name (f d) = id_name d"
  shows "cs_debug_alias (upd_ident cs i f) = cs_debug_alias cs"
proof -
  have "cs_stack (upd_ident cs i f) = cs_stack cs" "dbgalias (upd_ident cs i f) = dbgalias cs"
    by (simp_all add: upd_ident_def)
  then show ?thesis
    by (simp add: cs_debug_alias_def link_name_upd_ident [OF assms])
qed

lemma cs_debug_alias_changed [simp]: "cs_debug_alias (changed cs i) = cs_debug_alias cs"
proof -
  have "link_name (changed cs i) = link_name cs"
    by (rule ext) (simp add: link_name_def changed_def split: option.split)
  then show ?thesis by (simp add: cs_debug_alias_def changed_def)
qed

subsection \<open>Creating identifiers: the numeric-name rule\<close>

lemma isdigit_NUL: "\<not> isdigit NUL"
  by (simp add: isdigit_def NUL_def)

lemma isdigit_special [simp]: "\<not> isdigit CHR ''+''" "\<not> isdigit CHR ''-''" "\<not> isdigit CHR ''.''"
  by (simp_all add: isdigit_def)

lemma cs_check_num_numeric_name: "cs_check_num s = numeric_name s"
proof (cases s rule: numeric_name.cases)
  case 1
  then show ?thesis by (simp add: cs_check_num_def cstr_at_def isdigit_NUL)
next
  case (2 c)
  then show ?thesis by (auto simp add: cs_check_num_def cstr_at_def isdigit_def NUL_def)
next
  case (3 c d r)
  then show ?thesis
    by (cases r) (auto simp add: cs_check_num_def cstr_at_def isdigit_NUL)
qed


text \<open>
  Claim C8, as amended. For a name that is not in the table, \<^verbatim>\<open>new_ident\<close> rejects
  it exactly when it begins with a digit, with a sign followed by a digit or by a dot and a
  digit, or with a dot followed by a digit: the result is then the dummy identifier, the
  table is unchanged and (unless diagnostics are switched off) the message is written. Every
  other name gets a new alias at the next index, entered in the table under the name, and
  nothing is written.
\<close>

theorem new_ident_numeric_name_rule:
  assumes fresh: "idents cs name = None"
  shows "(numeric_name name \<longrightarrow>
            fst (new_ident cs name flags) = dummy cs \<and>
            identmap (snd (new_ident cs name flags)) = identmap cs \<and>
            idents (snd (new_ident cs name flags)) = idents cs \<and>
            err_out (snd (new_ident cs name flags)) =
              err_out cs @ (if nodebug cs = 0 then not_valid_msg name # cs_debug_alias cs else [])) \<and>
         (\<not> numeric_name name \<longrightarrow>
            fst (new_ident cs name flags) = length (identmap cs) \<and>
            identmap (snd (new_ident cs name flags)) =
              identmap cs @ [(Ident_alias name flags)\<lparr>id_index := length (identmap cs)\<rparr>] \<and>
            idents (snd (new_ident cs name flags)) = (idents cs)(name \<mapsto> length (identmap cs)) \<and>
            err_out (snd (new_ident cs name flags)) = err_out cs)"
  using fresh
  by (simp add: new_ident_def cs_check_num_numeric_name add_ident_def Let_def
      err_out_cs_debug_code not_valid_msg_def Ident_alias_def blank_ident_def)

text \<open>The theorem at the names \<^verbatim>\<open>foo\<close> and \<^verbatim>\<open>-.5\<close> in a fresh interpreter.\<close>

theorem new_ident_numeric_name_rule_witness:
  "idents CsState_init ''foo'' = None \<and> \<not> numeric_name ''foo'' \<and>
   fst (new_ident CsState_init ''foo'' IDF_UNKNOWN) = length (identmap CsState_init) \<and>
   idents (snd (new_ident CsState_init ''foo'' IDF_UNKNOWN)) ''foo'' = Some 28 \<and>
   idents CsState_init ''-.5'' = None \<and> numeric_name ''-.5'' \<and>
   fst (new_ident CsState_init ''-.5'' IDF_UNKNOWN) = dummy CsState_init"
proof -
  have f: "idents CsState_init ''foo'' = None" by code_simp
  have g: "idents CsState_init ''-.5'' = None" by code_simp
  have n: "\<not> numeric_name ''foo''" by (simp add: isdigit_def)
  have m: "numeric_name ''-.5''" by (simp add: isdigit_def)
  have l: "length (identmap CsState_init) = 28" by code_simp
  show ?thesis
    using new_ident_numeric_name_rule [OF f, of IDF_UNKNOWN]
      new_ident_numeric_name_rule [OF g, of IDF_UNKNOWN] f g n m l
    by simp
qed

text \<open>
  The rule as the specification words it does not cover a sign followed by a dot and a
  digit: \<^verbatim>\<open>+.5\<close> is outside the stated class, and the code rejects it all the same.
\<close>

theorem new_ident_claimed_rule_counterexample:
  "\<not> claimed_numeric_name ''+.5'' \<and>
   idents CsState_init ''+.5'' = None \<and>
   fst (new_ident CsState_init ''+.5'' IDF_UNKNOWN) = dummy CsState_init \<and>
   idents (snd (new_ident CsState_init ''+.5'' IDF_UNKNOWN)) ''+.5'' = None \<and>
   err_out (snd (new_ident CsState_init ''+.5'' IDF_UNKNOWN)) =
     [''number +.5 is not a valid identifier name'']"
proof -
  have "\<not> claimed_numeric_name ''+.5''"
    by (simp add: claimed_numeric_name_def cstr_at_def isdigit_def)
  moreover have "idents CsState_init ''+.5'' = None" by code_simp
  moreover have "fst (new_ident CsState_init ''+.5'' IDF_UNKNOWN) = dummy CsState_init"
    by code_simp
  moreover have "idents (snd (new_ident CsState_init ''+.5'' IDF_UNKNOWN)) ''+.5'' = None"
    by code_simp
  moreover have "err_out (snd (new_ident CsState_init ''+.5'' IDF_UNKNOWN)) =
     [''number +.5 is not a valid identifier name'']"
    by code_simp
  ultimately show ?thesis by blast
qed


subsection \<open>Setting an integer variable\<close>

lemma cs_override_var_int_ok:
  assumes "\<not> override_refused cs i" "i < length (identmap cs)"
  shows "fst (cs_override_var cs i save_override_i id id) = True"
    and "err_out (snd (cs_override_var cs i save_override_i id id)) = err_out cs"
    and "idents (snd (cs_override_var cs i save_override_i id id)) = idents cs"
    and "nodebug (snd (cs_override_var cs i save_override_i id id)) = nodebug cs"
    and "cs_debug_alias (snd (cs_override_var cs i save_override_i id id)) = cs_debug_alias cs"
    and "length (identmap (snd (cs_override_var cs i save_override_i id id))) = length (identmap cs)"
    and "minval (identmap (snd (cs_override_var cs i save_override_i id id)) ! i) = minval (identmap cs ! i)"
    and "maxval (identmap (snd (cs_override_var cs i save_override_i id id)) ! i) = maxval (identmap cs ! i)"
    and "range_msg (identmap (snd (cs_override_var cs i save_override_i id id)) ! i) = range_msg (identmap cs ! i)"
  using assms
  by (auto simp add: cs_override_var_def override_refused_def Let_def save_override_i_def
      range_msg_def has_flag_bits bit_set_overridden bit_clear_overridden cs_debug_alias_upd_ident)

lemma ostd_clamp_nearest: "lo \<le>s hi \<Longrightarrow> ostd_clamp v lo hi = nearest_bound v lo hi"
  by (auto simp add: ostd_clamp_def smin_def smax_def nearest_bound_def word_sless_alt word_sle_eq
      dest: signed_word_eqI)

text \<open>
  Claim C2, as amended. For an integer variable found under its name, when the override
  discipline lets the assignment through: \<^verbatim>\<open>set_var_int\<close> with \<^verbatim>\<open>doclamp\<close> stores the
  nearest bound of the range (the value itself when it is inside), provided the range is
  not inverted; without \<^verbatim>\<open>doclamp\<close> it stores the value as given; in both cases it writes
  no diagnostic. The range diagnostic belongs to \<^verbatim>\<open>set_var_int_checked\<close>, which stores
  the nearest bound and writes the message when the value was out of range (unless
  diagnostics are switched off).
\<close>

theorem set_var_int_clamping:
  assumes look: "idents cs name = Some i" and inb: "i < length (identmap cs)"
    and var: "id_type (identmap cs ! i) = ID_VAR"
    and ok: "\<not> override_refused cs i"
  shows "(minval (identmap cs ! i) \<le>s maxval (identmap cs ! i) \<longrightarrow>
            storage_ip (identmap (set_var_int cs name v dofunc True) ! i) =
              nearest_bound v (minval (identmap cs ! i)) (maxval (identmap cs ! i))) \<and>
         storage_ip (identmap (set_var_int cs name v dofunc False) ! i) = v \<and>
         err_out (set_var_int cs name v dofunc doclamp) = err_out cs \<and>
         (\<not> has_flag (id_flags (identmap cs ! i)) IDF_READONLY \<longrightarrow>
            storage_ip (identmap (set_var_int_checked cs i v) ! i) =
              nearest_bound v (minval (identmap cs ! i)) (maxval (identmap cs ! i)) \<and>
            err_out (set_var_int_checked cs i v) =
              err_out cs @
              (if (v <s minval (identmap cs ! i) \<or> maxval (identmap cs ! i) <s v) \<and> nodebug cs = 0
               then range_msg (identmap cs ! i) # cs_debug_alias cs else []))"
proof -
  let ?o = "cs_override_var cs i save_override_i id id"
  note o = cs_override_var_int_ok [OF ok inb]
  have inb': "i < length (identmap (snd ?o))" using o(6) inb by simp
  have a: "minval (identmap cs ! i) \<le>s maxval (identmap cs ! i) \<Longrightarrow>
      storage_ip (identmap (set_var_int cs name v dofunc True) ! i) =
        nearest_bound v (minval (identmap cs ! i)) (maxval (identmap cs ! i))"
    using look var o(1) inb' o(7,8)
    by (cases ?o) (simp add: set_var_int_def Let_def ostd_clamp_nearest)
  have b: "storage_ip (identmap (set_var_int cs name v dofunc False) ! i) = v"
    using look var o(1) inb'
    by (cases ?o) (simp add: set_var_int_def Let_def)
  have c: "err_out (set_var_int cs name v dofunc doclamp) = err_out cs"
    using look var o(1,2)
    by (cases ?o) (simp add: set_var_int_def Let_def)
  have d: "storage_ip (identmap (set_var_int_checked cs i v) ! i) =
        nearest_bound v (minval (identmap cs ! i)) (maxval (identmap cs ! i))"
    if "\<not> has_flag (id_flags (identmap cs ! i)) IDF_READONLY"
    using that o(1) inb' o(7,8)
    by (cases ?o)
      (auto simp add: set_var_int_checked_def Let_def cs_clamp_var_def nearest_bound_def
        split: prod.splits)
  have e: "err_out (set_var_int_checked cs i v) =
        err_out cs @
        (if (v <s minval (identmap cs ! i) \<or> maxval (identmap cs ! i) <s v) \<and> nodebug cs = 0
         then range_msg (identmap cs ! i) # cs_debug_alias cs else [])"
    if "\<not> has_flag (id_flags (identmap cs ! i)) IDF_READONLY"
    using that o(1) inb' o(2,4,5,7,8,9)
    by (cases ?o)
      (auto simp add: set_var_int_checked_def Let_def cs_clamp_var_def err_out_cs_debug_code
        split: prod.splits)
  from a b c d e show ?thesis by blast
qed

text \<open>The theorem at the variable \<^verbatim>\<open>v\<close> (range 0..100) and the value 250.\<close>

theorem set_var_int_clamping_witness:
  "idents state_with_v ''v'' = Some 28 \<and> \<not> override_refused state_with_v 28 \<and>
   storage_ip (identmap (set_var_int state_with_v ''v'' 250 True True) ! 28) = 100 \<and>
   storage_ip (identmap (set_var_int state_with_v ''v'' 250 True False) ! 28) = 250 \<and>
   storage_ip (identmap (set_var_int_checked state_with_v 28 250) ! 28) = 100 \<and>
   err_out (set_var_int_checked state_with_v 28 250) = [''valid range for 'v' is 0..100'']"
proof -
  have look: "idents state_with_v ''v'' = Some 28" by code_simp
  have inb: "28 < length (identmap state_with_v)" by code_simp
  have var: "id_type (identmap state_with_v ! 28) = ID_VAR" by code_simp
  have ok: "\<not> override_refused state_with_v 28" by code_simp
  have ro: "\<not> has_flag (id_flags (identmap state_with_v ! 28)) IDF_READONLY" by code_simp
  have lo: "minval (identmap state_with_v ! 28) = 0" by code_simp
  have hi: "maxval (identmap state_with_v ! 28) = 100" by code_simp
  have dbg: "nodebug state_with_v = 0" "err_out state_with_v = []"
    "cs_debug_alias state_with_v = []" by code_simp+
  have msg: "range_msg (identmap state_with_v ! 28) = ''valid range for 'v' is 0..100''"
    by code_simp
  have nb: "nearest_bound 250 0 100 = 100" "(0 :: cint) \<le>s 100" "(100 :: cint) <s 250"
    by (simp_all add: nearest_bound_def word_sless_alt word_sle_eq)
  show ?thesis
    using set_var_int_clamping [OF look inb var ok, of 250 True True] look ok ro lo hi dbg msg nb
    by simp
qed

text \<open>
  The claim as stated fails for \<^verbatim>\<open>doclamp = false\<close>: the value 250, outside 0..100, is
  stored as it is, and nothing is written to the error stream.
\<close>

theorem set_var_int_raw_no_diagnostic_counterexample:
  "maxval (identmap state_with_v ! 28) <s 250 \<and>
   idents state_with_v ''v'' = Some 28 \<and> nodebug state_with_v = 0 \<and>
   storage_ip (identmap (set_var_int state_with_v ''v'' 250 True False) ! 28) = 250 \<and>
   err_out (set_var_int state_with_v ''v'' 250 True False) = []"
proof -
  have "maxval (identmap state_with_v ! 28) <s 250" by code_simp
  moreover have "idents state_with_v ''v'' = Some 28" by code_simp
  moreover have "nodebug state_with_v = 0" by code_simp
  moreover have "storage_ip (identmap (set_var_int state_with_v ''v'' 250 True False) ! 28) = 250"
    by code_simp
  moreover have "err_out (set_var_int state_with_v ''v'' 250 True False) = []" by code_simp
  ultimately show ?thesis by blast
qed

subsection \<open>Reference counting of bytecode blocks\<close>

lemma bcode_addref_eq: "bcode_addref mem code = bcode_ref mem code"
  unfolding bcode_addref_def bcode_ref_def bcode_incr_def by (rule refl)

lemma bcode_decr_eq: "bcode_decr mem q = decr_and_free mem q"
  by (simp add: bcode_decr_def decr_and_free_def Let_def)

lemma bcode_unref_bc_eq: "bcode_unref_bc mem code = bcode_unref mem code"
  unfolding bcode_unref_bc_def bcode_unref_def bcode_decr_eq by (rule refl)

lemma freed_iff_refcount: "(sint w < 0x100) = (refcount w < 1)"
  unfolding refcount_def by presburger

lemma start_ne_offset: "CODE_OFFSET \<noteq> CODE_START"
  by (simp add: CODE_OFFSET_def CODE_START_def)

text \<open>
  Claim C6. Let \<open>s\<close> point at the \<^verbatim>\<open>START\<close> word of a block and \<open>p\<close> at a position of the
  block that follows an \<^verbatim>\<open>OFFSET\<close> instruction recording the distance back to \<open>s\<close>. Both
  pointers are accepted by the reference and the unreference operation, of
  \<^verbatim>\<open>src/cubescript.cc\<close> and of \<^verbatim>\<open>src/cs_bcode.cc\<close> alike, and both change the count in
  the same word, the one at \<open>s\<close>: by \<^verbatim>\<open>0x100\<close> up, or down. Unreferencing hands the
  block at \<open>s\<close> to the deallocator exactly when the count it leaves is below one.
\<close>

theorem bcode_ref_unref_entry_shapes:
  assumes st: "start_shape mem s" and off: "offset_shape mem s p"
  shows "bcode_ref mem (Some s) = Some (mem[s := mem ! s + 0x100]) \<and>
         bcode_ref mem (Some p) = Some (mem[s := mem ! s + 0x100]) \<and>
         bcode_addref mem (Some s) = Some (mem[s := mem ! s + 0x100]) \<and>
         bcode_addref mem (Some p) = Some (mem[s := mem ! s + 0x100]) \<and>
         bcode_unref mem (Some s) =
           Some (mem[s := mem ! s - 0x100], if refcount (mem ! s - 0x100) < 1 then Some s else None) \<and>
         bcode_unref mem (Some p) = bcode_unref mem (Some s) \<and>
         bcode_unref_bc mem (Some s) = bcode_unref mem (Some s) \<and>
         bcode_unref_bc mem (Some p) = bcode_unref mem (Some s)"
proof -
  from off have d: "p - unat (drop_bit 8 (mem ! (p - 1))) = s" "\<not> p < unat (drop_bit 8 (mem ! (p - 1)))"
    "p \<noteq> 0" "\<not> length mem \<le> p" "mem ! p AND CODE_OP_MASK \<noteq> CODE_START"
    "mem ! (p - 1) AND CODE_OP_MASK = CODE_OFFSET"
    by (auto simp add: offset_shape_def)
  from st have s: "\<not> length mem \<le> s" "mem ! s AND CODE_OP_MASK = CODE_START"
    by (auto simp add: start_shape_def)
  have r1: "bcode_ref mem (Some s) = Some (mem[s := mem ! s + 0x100])"
    using s by (simp add: bcode_ref_def)
  have r2: "bcode_ref mem (Some p) = Some (mem[s := mem ! s + 0x100])"
    using d start_ne_offset by (simp add: bcode_ref_def Let_def)
  have u1: "bcode_unref mem (Some s) =
      Some (mem[s := mem ! s - 0x100], if refcount (mem ! s - 0x100) < 1 then Some s else None)"
    using s by (simp add: bcode_unref_def decr_and_free_def Let_def freed_iff_refcount)
  have u2: "bcode_unref mem (Some p) = bcode_unref mem (Some s)"
    using d s start_ne_offset by (simp add: bcode_unref_def Let_def)
  show ?thesis
    using r1 r2 u1 u2 by (simp add: bcode_addref_eq bcode_unref_bc_eq)
qed

text \<open>
  The theorem on a block as the compiler lays it out, entered at position 3 behind its
  \<^verbatim>\<open>OFFSET\<close> word: with one reference the block is freed, with two it is kept.
\<close>

theorem bcode_ref_unref_entry_shapes_witness:
  "start_shape example_block 0 \<and> offset_shape example_block 0 3 \<and>
   bcode_ref example_block (Some 3) = Some (example_block[0 := 0x200]) \<and>
   bcode_unref example_block (Some 3) = Some (example_block[0 := 0], Some 0) \<and>
   bcode_unref (example_block[0 := 0x200]) (Some 3) = Some (example_block[0 := 0x100], None)"
proof -
  have a: "start_shape example_block 0"
    by (simp add: start_shape_def example_block_def CODE_START_def CODE_OP_MASK_def)
  have b: "offset_shape example_block 0 3"
    by (simp add: offset_shape_def example_block_def CODE_START_def CODE_OP_MASK_def
       CODE_OFFSET_def CODE_VALI_def drop_bit_eq_div)
  have a': "start_shape (example_block[0 := 0x200]) 0"
    by (simp add: start_shape_def example_block_def CODE_START_def CODE_OP_MASK_def)
  have b': "offset_shape (example_block[0 := 0x200]) 0 3"
    by (simp add: offset_shape_def example_block_def CODE_START_def CODE_OP_MASK_def
       CODE_OFFSET_def CODE_VALI_def drop_bit_eq_div)
  have e: "example_block ! 0 = 0x100" by (simp add: example_block_def CODE_START_def)
  show ?thesis
    using bcode_ref_unref_entry_shapes [OF a b] bcode_ref_unref_entry_shapes [OF a' b'] a b e
    by (simp add: refcount_def example_block_def)
qed


subsection \<open>The division commands\<close>

lemma math_fold_guarded_no_dbz:
  assumes "\<And>a b. nz b \<Longrightarrow> opr a b \<noteq> Inl DivisionByZero"
  shows "math_fold (\<lambda>val val2. if nz val2 then opr val val2 else Inr z) v xs \<noteq> Inl DivisionByZero"
proof (induction xs arbitrary: v)
  case Nil
  then show ?case by simp
next
  case (Cons x xs)
  show ?case
  proof (cases "nz x")
    case True
    with assms [of x v] Cons show ?thesis
      by (cases "opr v x") (auto split: c_undefined.splits)
  next
    case False
    with Cons show ?thesis by simp
  qed
qed

lemma CS_CMD_DIV_no_dbz:
  assumes "\<And>a b. nz b \<Longrightarrow> opr a b \<noteq> Inl DivisionByZero"
  shows "CS_CMD_DIV nz z opr args \<noteq> Inl DivisionByZero"
  using math_fold_guarded_no_dbz [OF assms]
  by (simp add: CS_CMD_DIV_def CS_CMD_MATH_def)

lemma math_fold_total:
  assumes "\<And>a b. \<exists>v. opr a b = Inr v"
  shows "\<exists>r. math_fold opr v xs = Inr r"
proof (induction xs arbitrary: v)
  case Nil
  then show ?case by simp
next
  case (Cons x xs)
  from assms [of v x] obtain w where "opr v x = Inr w" by blast
  with Cons [of w] show ?case by simp
qed

lemma CS_CMD_DIV_float_total:
  assumes "\<And>a b. flt_nonzero b \<Longrightarrow> \<exists>v. opr a b = Inr v"
  shows "\<exists>r. CS_CMD_DIV flt_nonzero z opr args = Inr r"
proof -
  have "\<exists>v. (if flt_nonzero b then opr a b else Inr z) = Inr v" for a b
    using assms [of b a] by simp
  from math_fold_total [of "\<lambda>val val2. if flt_nonzero val2 then opr val val2 else Inr z", OF this]
  show ?thesis
    by (simp add: CS_CMD_DIV_def CS_CMD_MATH_def)
qed

lemma math_fold_snoc:
  "math_fold opr v (xs @ [x]) =
     (case math_fold opr v xs of Inl u \<Rightarrow> Inl u | Inr w \<Rightarrow> opr w x)"
proof (induction xs arbitrary: v)
  case Nil
  show ?case by (cases "opr v x") simp_all
next
  case (Cons y ys)
  then show ?case by (cases "opr v y") simp_all
qed

lemma CS_CMD_DIV_zero_last:
  assumes "\<not> nz z0"
  shows "CS_CMD_DIV nz z opr (a # xs @ [z0]) =
     (case CS_CMD_DIV nz z opr (a # xs) of Inl u \<Rightarrow> Inl u | Inr w \<Rightarrow> Inr z)"
proof (cases xs)
  case Nil
  with assms show ?thesis by (simp add: CS_CMD_DIV_def CS_CMD_MATH_def)
next
  case (Cons y ys)
  then have "2 \<le> length (a # xs)" by simp
  with assms show ?thesis
    by (simp add: CS_CMD_DIV_def CS_CMD_MATH_def math_fold_snoc split: sum.split)
qed

text \<open>
  Claim C10. The commands \<^verbatim>\<open>div\<close>, \<^verbatim>\<open>mod\<close>, \<^verbatim>\<open>divf\<close> and \<^verbatim>\<open>modf\<close> never divide by
  zero, for any list of operands: a zero divisor sets the accumulated value to 0 instead.
  The float commands end with a value for every list. The integer commands do not: the
  guard lets the division of \<^verbatim>\<open>INT_MIN\<close> by \<open>-1\<close> through, whose quotient C++ leaves
  undefined.
\<close>

theorem div_commands_guard:
  "cmd_div args \<noteq> Inl DivisionByZero \<and> cmd_mod args \<noteq> Inl DivisionByZero \<and>
   cmd_divf fargs \<noteq> Inl DivisionByZero \<and> cmd_modf fargs \<noteq> Inl DivisionByZero \<and>
   (\<exists>v. cmd_divf fargs = Inr v) \<and> (\<exists>v. cmd_modf fargs = Inr v) \<and>
   cmd_div (a # xs @ [0]) = (case cmd_div (a # xs) of Inl u \<Rightarrow> Inl u | Inr w \<Rightarrow> Inr 0) \<and>
   cmd_mod (a # xs @ [0]) = (case cmd_mod (a # xs) of Inl u \<Rightarrow> Inl u | Inr w \<Rightarrow> Inr 0) \<and>
   cmd_divf (b # ys @ [FZero neg]) = Inr (FZero False) \<and>
   cmd_modf (b # ys @ [FZero neg]) = Inr (FZero False) \<and>
   cmd_div [INT_MIN, - 1] = Inl SignedOverflow \<and>
   cmd_mod [INT_MIN, - 1] = Inl SignedOverflow"
proof -
  have i: "cmd_div args \<noteq> Inl DivisionByZero" "cmd_mod args \<noteq> Inl DivisionByZero"
    unfolding cmd_div_def cmd_mod_def
    by (rule CS_CMD_DIV_no_dbz, simp add: c_int_div_def c_int_mod_def)+
  have f: "cmd_divf fargs \<noteq> Inl DivisionByZero" "cmd_modf fargs \<noteq> Inl DivisionByZero"
    unfolding cmd_divf_def cmd_modf_def
    by (rule CS_CMD_DIV_no_dbz, simp add: c_float_div_def c_float_fmod_def)+
  have t: "\<exists>v. cmd_divf l = Inr v" "\<exists>v. cmd_modf l = Inr v" for l
    unfolding cmd_divf_def cmd_modf_def
    by (rule CS_CMD_DIV_float_total, simp add: c_float_div_def c_float_fmod_def)+
  have z: "cmd_div (a # xs @ [0]) = (case cmd_div (a # xs) of Inl u \<Rightarrow> Inl u | Inr w \<Rightarrow> Inr 0)"
    "cmd_mod (a # xs @ [0]) = (case cmd_mod (a # xs) of Inl u \<Rightarrow> Inl u | Inr w \<Rightarrow> Inr 0)"
    unfolding cmd_div_def cmd_mod_def by (rule CS_CMD_DIV_zero_last, simp)+
  have zf: "cmd_divf (b # ys @ [FZero neg]) = Inr (FZero False)"
    "cmd_modf (b # ys @ [FZero neg]) = Inr (FZero False)"
    using t(1) [of "b # ys"] t(2) [of "b # ys"]
      CS_CMD_DIV_zero_last [of flt_nonzero "FZero neg" "FZero False" c_float_div b ys]
      CS_CMD_DIV_zero_last [of flt_nonzero "FZero neg" "FZero False" c_float_fmod b ys]
    by (auto simp add: cmd_divf_def cmd_modf_def flt_nonzero_def)
  have o: "cmd_div [INT_MIN, - 1] = Inl SignedOverflow" "cmd_mod [INT_MIN, - 1] = Inl SignedOverflow"
    by (simp_all add: cmd_div_def cmd_mod_def CS_CMD_DIV_def CS_CMD_MATH_def c_int_div_def
        c_int_mod_def INT_MIN_def)
  from i f t z zf o show ?thesis by blast
qed


subsection \<open>The bounds of numeric variables\<close>

lemma same_bounds_refl [simp]: "same_bounds d d"
  by (simp add: same_bounds_def)

lemma same_bounds_trans: "same_bounds a b \<Longrightarrow> same_bounds b c \<Longrightarrow> same_bounds a c"
  by (simp add: same_bounds_def)

lemma same_bounds_ok: "same_bounds d d' \<Longrightarrow> bounds_ok d' = bounds_ok d"
  by (cases "id_type d") (simp_all add: same_bounds_def bounds_ok_def)

lemma frame_rel_refl [simp]: "frame_rel cs cs"
  by (simp add: frame_rel_def list_all2_refl)

lemma frame_rel_trans: "frame_rel a b \<Longrightarrow> frame_rel b c \<Longrightarrow> frame_rel a c"
  unfolding frame_rel_def
  by (rule list_all2_trans [of same_bounds same_bounds same_bounds, OF same_bounds_trans])

lemma frame_rel_debug [simp]: "frame_rel cs (cs_debug_code cs msg)"
  by (simp add: frame_rel_def list_all2_refl)

lemma frame_rel_changed [simp]: "frame_rel cs (changed cs i)"
  by (simp add: frame_rel_def list_all2_refl)

lemma frame_rel_upd:
  assumes "\<And>d. same_bounds d (f d)"
  shows "frame_rel cs (upd_ident cs i f)"
proof -
  have "same_bounds (identmap cs ! j) ((identmap cs)[i := f (identmap cs ! i)] ! j)"
    if "j < length (identmap cs)" for j
    using that assms by (cases "j = i") simp_all
  then show ?thesis
    by (simp add: frame_rel_def upd_ident_def list_all2_conv_all_nth)
qed

lemma same_bounds_flag_overridden:
  "same_bounds d (d\<lparr>id_flags := id_flags d OR IDF_OVERRIDDEN\<rparr>)"
  "same_bounds d (d\<lparr>id_flags := id_flags d AND NOT IDF_OVERRIDDEN\<rparr>)"
  by (simp_all add: same_bounds_def has_flag_bits bit_set_overridden bit_clear_overridden)

lemma frame_rel_override:
  assumes "\<And>d. same_bounds d (sf d)"
  shows "frame_rel cs (snd (cs_override_var cs i sf id id))"
proof -
  have a: "same_bounds d ((sf d)\<lparr>id_flags := id_flags (sf d) OR IDF_OVERRIDDEN\<rparr>)" for d
    using same_bounds_trans [OF assms [of d] same_bounds_flag_overridden(1) [of "sf d"]] .
  have b: "same_bounds d (d\<lparr>id_flags := id_flags d AND NOT IDF_OVERRIDDEN\<rparr>)" for d
    by (rule same_bounds_flag_overridden)
  show ?thesis
    by (auto simp add: cs_override_var_def Let_def intro!: frame_rel_upd a b)
qed

lemma same_bounds_save [simp]:
  "same_bounds d (save_override_i d)" "same_bounds d (save_override_f d)"
  by (simp_all add: same_bounds_def save_override_i_def save_override_f_def)

lemma same_bounds_storage [simp]:
  "same_bounds d (d\<lparr>storage_ip := w\<rparr>)" "same_bounds d (d\<lparr>storage_fp := x\<rparr>)"
  "same_bounds d (d\<lparr>storage_sp := y\<rparr>)"
  by (simp_all add: same_bounds_def)

lemma frame_rel_store:
  assumes "frame_rel cs cs1" and "\<And>d. same_bounds d (f d)"
  shows "frame_rel cs (upd_ident cs1 i f)" "frame_rel cs (changed (upd_ident cs1 i f) i)"
  using frame_rel_trans [OF assms(1) frame_rel_upd [of f cs1 i, OF assms(2)]]
    frame_rel_trans [OF _ frame_rel_changed]
  by blast+

lemma frame_rel_set_var_int: "frame_rel cs (set_var_int cs name v dofunc doclamp)"
proof (cases "idents cs name")
  case None
  then show ?thesis by (simp add: set_var_int_def)
next
  case (Some i)
  obtain ok cs1 where o: "cs_override_var cs i save_override_i id id = (ok, cs1)"
    by (cases "cs_override_var cs i save_override_i id id")
  have r: "frame_rel cs cs1"
    using frame_rel_override [of save_override_i cs i] o by simp
  show ?thesis
    using Some o r frame_rel_store [OF r]
    by (simp add: set_var_int_def Let_def)
qed

lemma frame_rel_set_var_float: "frame_rel cs (set_var_float cs name v dofunc doclamp)"
proof (cases "idents cs name")
  case None
  then show ?thesis by (simp add: set_var_float_def)
next
  case (Some i)
  obtain ok cs1 where o: "cs_override_var cs i save_override_f id id = (ok, cs1)"
    by (cases "cs_override_var cs i save_override_f id id")
  have r: "frame_rel cs cs1"
    using frame_rel_override [of save_override_f cs i] o by simp
  show ?thesis
    using Some o r frame_rel_store [OF r]
    by (simp add: set_var_float_def Let_def)
qed

lemma frame_rel_set_var_int_checked: "frame_rel cs (set_var_int_checked cs i v)"
proof -
  obtain ok cs1 where o: "cs_override_var cs i save_override_i id id = (ok, cs1)"
    by (cases "cs_override_var cs i save_override_i id id")
  have r: "frame_rel cs cs1"
    using frame_rel_override [of save_override_i cs i] o by simp
  have c: "frame_rel cs (snd (cs_clamp_var cs1 i v))"
    using r frame_rel_trans [OF r frame_rel_debug]
    by (simp add: cs_clamp_var_def Let_def)
  show ?thesis
    using o r frame_rel_store [OF r] frame_rel_store [OF c]
    by (auto simp add: set_var_int_checked_def Let_def split: prod.splits)
qed

lemma frame_rel_set_var_float_checked: "frame_rel cs (set_var_float_checked cs i v)"
proof -
  obtain ok cs1 where o: "cs_override_var cs i save_override_f id id = (ok, cs1)"
    by (cases "cs_override_var cs i save_override_f id id")
  have r: "frame_rel cs cs1"
    using frame_rel_override [of save_override_f cs i] o by simp
  have c: "frame_rel cs (snd (cs_clamp_fvar cs1 i v))"
    using r frame_rel_trans [OF r frame_rel_debug]
    by (simp add: cs_clamp_fvar_def Let_def)
  show ?thesis
    using o r frame_rel_store [OF r] frame_rel_store [OF c]
    by (auto simp add: set_var_float_checked_def Let_def split: prod.splits)
qed

lemma frame_rel_clear_override: "frame_rel cs (clear_override cs i)"
proof -
  have a: "same_bounds d ((clean_code d)\<lparr>id_val := w\<rparr>)" for d w
    by (simp add: same_bounds_def clean_code_def)
  have b: "same_bounds d (d\<lparr>storage_ip := overrideval_i d\<rparr>)"
    "same_bounds d (d\<lparr>storage_fp := overrideval_f d\<rparr>)"
    "same_bounds d (d\<lparr>storage_sp := overrideval_s d\<rparr>)" for d
    by simp_all
  have "frame_rel cs cs1 \<Longrightarrow>
      frame_rel cs (upd_ident cs1 i (\<lambda>d. d\<lparr>id_flags := id_flags d AND NOT IDF_OVERRIDDEN\<rparr>))" for cs1
    by (rule frame_rel_store(1)) (simp_all add: same_bounds_flag_overridden)
  then show ?thesis
    using frame_rel_store [OF frame_rel_refl, of _ cs i] a b
    by (cases "id_type (identmap cs ! i)") (simp_all add: clear_override_def Let_def)
qed

lemma frame_rel_clear_overrides_aux:
  "frame_rel cs cs1 \<Longrightarrow> frame_rel cs (fold (\<lambda>i c. clear_override c i) is cs1)"
proof (induction "is" arbitrary: cs1)
  case Nil
  then show ?case by simp
next
  case (Cons i "is")
  show ?case
    using Cons.IH [OF frame_rel_trans [OF Cons.prems frame_rel_clear_override]] by simp
qed

lemma frame_rel_apply_var_op: "frame_rel cs (apply_var_op opn cs)"
proof (cases opn)
  case (ResetVar name)
  then show ?thesis
    by (simp add: reset_var_def frame_rel_clear_override split: option.split)
next
  case (TouchVar name)
  then show ?thesis by (simp add: touch_var_def split: option.split)
qed (simp_all add: frame_rel_set_var_int frame_rel_set_var_float frame_rel_set_var_int_checked
    frame_rel_set_var_float_checked frame_rel_clear_override clear_overrides_def
    frame_rel_clear_overrides_aux)

lemma flt_trichotomy:
  assumes "a \<noteq> FNaN" "b \<noteq> FNaN"
  shows "flt_lt a b \<or> flt_eq a b \<or> flt_lt b a"
  using assms
  by (cases a; cases b) (auto simp add: flt_lt_def flt_eq_def Let_def min.commute)

lemma Ident_var_fields [simp]:
  "id_type (Ident_var n m x s f) = ID_VAR"
  "minval (Ident_var n m x s f) = m"
  "maxval (Ident_var n m x s f) = x"
  "id_flags (Ident_var n m x s f) = f OR (if x <s m then IDF_READONLY else 0)"
  by (simp_all add: Ident_var_def blank_ident_def)

lemma Ident_fvar_fields [simp]:
  "id_type (Ident_fvar n m x s f) = ID_FVAR"
  "minvalf (Ident_fvar n m x s f) = m"
  "maxvalf (Ident_fvar n m x s f) = x"
  "id_flags (Ident_fvar n m x s f) = f OR (if flt_gt m x then IDF_READONLY else 0)"
  by (simp_all add: Ident_fvar_def blank_ident_def)

lemma list_all_bounds_ok_frame:
  assumes "frame_rel cs cs'" "list_all bounds_ok (identmap cs)"
  shows "list_all bounds_ok (identmap cs')"
  using assms
  by (auto simp add: frame_rel_def list_all2_conv_all_nth list_all_length same_bounds_ok)

text \<open>
  Claim C9, as amended. An integer variable is created with its bounds in order or with the
  read-only flag, and so is a float variable whose bounds are not NaN; inverted bounds set
  the flag. No operation on variables (the setters, checked or not, clearing an override,
  resetting, touching) changes the type, the bounds or the read-only flag of any
  identifier, so the bounds of every numeric variable stay in order or the variable
  read-only.
\<close>

theorem numeric_bounds_invariant:
  "bounds_ok (Ident_var n m x s flagsv) \<and>
   (x <s m \<longrightarrow> has_flag (id_flags (Ident_var n m x s flagsv)) IDF_READONLY) \<and>
   (fm \<noteq> FNaN \<and> fx \<noteq> FNaN \<longrightarrow> bounds_ok (Ident_fvar n fm fx fs flagsv)) \<and>
   (flt_gt fm fx \<longrightarrow> has_flag (id_flags (Ident_fvar n fm fx fs flagsv)) IDF_READONLY) \<and>
   list_all2 same_bounds (identmap cs) (identmap (apply_var_op opn cs)) \<and>
   (list_all bounds_ok (identmap cs) \<longrightarrow> list_all bounds_ok (identmap (apply_var_op opn cs)))"
proof -
  have a: "bounds_ok (Ident_var n m x s flagsv)"
    by (auto simp add: bounds_ok_def has_flag_bits bit_or_readonly word_sless_alt word_sle_eq)
  have b: "x <s m \<Longrightarrow> has_flag (id_flags (Ident_var n m x s flagsv)) IDF_READONLY"
    by (simp add: has_flag_bits bit_or_readonly)
  have c: "bounds_ok (Ident_fvar n fm fx fs flagsv)" if "fm \<noteq> FNaN" "fx \<noteq> FNaN"
    using flt_trichotomy [OF that]
    by (auto simp add: bounds_ok_def has_flag_bits bit_or_readonly flt_le_def flt_gt_def)
  have d: "flt_gt fm fx \<Longrightarrow> has_flag (id_flags (Ident_fvar n fm fx fs flagsv)) IDF_READONLY"
    by (simp add: has_flag_bits bit_or_readonly)
  have e: "list_all2 same_bounds (identmap cs) (identmap (apply_var_op opn cs))"
    using frame_rel_apply_var_op [of cs opn] by (simp add: frame_rel_def)
  have f: "list_all bounds_ok (identmap (apply_var_op opn cs))" if "list_all bounds_ok (identmap cs)"
    using list_all_bounds_ok_frame [OF frame_rel_apply_var_op that] .
  from a b c d e f show ?thesis by blast
qed

text \<open>
  The theorem at inverted integer and float bounds, at float bounds in order, and at a
  checked assignment in the state with the variable \<^verbatim>\<open>v\<close>.
\<close>

theorem numeric_bounds_invariant_witness:
  "(0 :: cint) <s 25 \<and> has_flag (id_flags (Ident_var ''f'' 25 0 0 0)) IDF_READONLY \<and>
   flt_gt (FNum False 1 0) (FZero False) \<and>
   has_flag (id_flags (Ident_fvar ''f'' (FNum False 1 0) (FZero False) (FZero False) 0)) IDF_READONLY \<and>
   bounds_ok (Ident_fvar ''f'' (FZero False) (FNum False 1 0) (FZero False) 0) \<and>
   list_all bounds_ok (identmap state_with_v) \<and>
   list_all bounds_ok (identmap (apply_var_op (SetVarIntChecked 28 250) state_with_v))"
proof -
  have a: "(0 :: cint) <s 25" by (simp add: word_sless_alt)
  have b: "flt_gt (FNum False 1 0) (FZero False)"
    by (simp add: flt_gt_def flt_lt_def scaled_def flt_exp_def)
  have c: "FZero False \<noteq> FNaN \<and> FNum False 1 0 \<noteq> FNaN" by simp
  have d: "list_all bounds_ok (identmap state_with_v)" by code_simp
  note t1 = numeric_bounds_invariant [where n = "''f''" and m = 25 and x = 0 and s = 0
      and flagsv = 0 and fm = "FNum False 1 0" and fx = "FZero False" and fs = "FZero False"
      and cs = state_with_v and opn = "SetVarIntChecked 28 250"]
  note t2 = numeric_bounds_invariant [where n = "''f''" and m = 25 and x = 0 and s = 0
      and flagsv = 0 and fm = "FZero False" and fx = "FNum False 1 0" and fs = "FZero False"
      and cs = state_with_v and opn = "SetVarIntChecked 28 250"]
  show ?thesis
    using t1 t2 a b c d by blast
qed

text \<open>
  A float variable created with a NaN as its lower bound: the comparison that sets the
  read-only flag is false, and so is the order of the bounds.
\<close>

theorem float_bounds_nan_counterexample:
  "id_type (Ident_fvar ''f'' FNaN (FNum False 1 0) (FZero False) 0) = ID_FVAR \<and>
   \<not> flt_le (minvalf (Ident_fvar ''f'' FNaN (FNum False 1 0) (FZero False) 0))
            (maxvalf (Ident_fvar ''f'' FNaN (FNum False 1 0) (FZero False) 0)) \<and>
   \<not> has_flag (id_flags (Ident_fvar ''f'' FNaN (FNum False 1 0) (FZero False) 0)) IDF_READONLY \<and>
   \<not> bounds_ok (Ident_fvar ''f'' FNaN (FNum False 1 0) (FZero False) 0)"
  by (simp add: bounds_ok_def flt_le_def flt_lt_def flt_eq_def flt_gt_def has_flag_def)


end
